theory Spec2Isabelle
  imports Complex_Main
begin

section \<open>Python strings\<close>

text \<open>
  A Python \<open>str\<close> is modelled as a \<open>string\<close>: a list of characters, each a code point
  below 256. \<open>isspace\<close> is \<open>str.isspace\<close> on these code points (tab to carriage return,
  the four separators 28 to 31, the space, NEL and the no-break space); \<open>strip\<close> is
  \<open>s.strip()\<close> and \<open>strip_chars cs\<close> is \<open>s.strip(cs)\<close>.
\<close>

definition isspace :: "char \<Rightarrow> bool" where
  "isspace c = (let n = (of_char c :: nat) in
     (9 \<le> n \<and> n \<le> 13) \<or> (28 \<le> n \<and> n \<le> 32) \<or> n = 133 \<or> n = 160)"

definition strip_while :: "(char \<Rightarrow> bool) \<Rightarrow> string \<Rightarrow> string" where
  "strip_while p s = rev (dropWhile p (rev (dropWhile p s)))"

definition strip :: "string \<Rightarrow> string" where
  "strip s = strip_while isspace s"

definition strip_chars :: "string \<Rightarrow> string \<Rightarrow> string" where
  "strip_chars cs s = strip_while (\<lambda>c. c \<in> set cs) s"

definition startswith :: "string \<Rightarrow> string \<Rightarrow> bool" where
  "startswith s p = (take (length p) s = p)"

text \<open>\<open>s.find(c)\<close> for a one-character needle: the first index, or \<open>-1\<close>.\<close>

definition str_find :: "string \<Rightarrow> char \<Rightarrow> int" where
  "str_find s c = (if c \<in> set s then int (length (takeWhile (\<lambda>x. x \<noteq> c) s)) else - 1)"

text \<open>\<open>s[a:b]\<close> for \<open>0 \<le> a\<close> and \<open>0 \<le> b\<close>.\<close>

definition slice :: "string \<Rightarrow> nat \<Rightarrow> nat \<Rightarrow> string" where
  "slice s a b = take (b - a) (drop a s)"

text \<open>
  \<open>str.lower()\<close> on code points below 256: the ASCII capitals and the Latin-1 capitals
  (192 to 222, the multiplication sign 215 apart) move up by 32.
\<close>

definition lower_char :: "char \<Rightarrow> char" where
  "lower_char c = (let n = (of_char c :: nat) in
     if (65 \<le> n \<and> n \<le> 90) \<or> (192 \<le> n \<and> n \<le> 222 \<and> n \<noteq> 215) then char_of (n + 32) else c)"

definition lower :: "string \<Rightarrow> string" where
  "lower s = map lower_char s"

text \<open>\<open>k in t\<close> on strings: \<open>k\<close> occurs in \<open>t\<close> as a contiguous block.\<close>

fun contains :: "string \<Rightarrow> string \<Rightarrow> bool" where
  "contains [] k = (k = [])"
| "contains (x # xs) k = (take (length k) (x # xs) = k \<or> contains xs k)"

text \<open>\<open>sep.join(xs)\<close>.\<close>

fun join :: "string \<Rightarrow> string list \<Rightarrow> string" where
  "join sep [] = []"
| "join sep [x] = x"
| "join sep (x # y # ys) = x @ sep @ join sep (y # ys)"

section \<open>Dynamic values, dictionaries, exceptions\<close>

text \<open>
  The values that travel through \<open>Dict[str, Any]\<close> and through JSON: \<open>None\<close>, booleans,
  integers, floats, strings, lists and dictionaries. A dictionary is an association
  list read with \<open>map_of\<close>. \<open>truthy\<close> is Python's truth value, \<open>py_or a b\<close> is
  \<open>a or b\<close>, and \<open>dict_get d k\<close> is \<open>d.get(k)\<close> (\<open>None\<close> for a missing key).
\<close>

datatype json =
    JNull
  | JBool bool
  | JInt int
  | JFloat real
  | JStr string
  | JArr "json list"
  | JObj "(string \<times> json) list"

type_synonym pydict = "(string \<times> json) list"

fun truthy :: "json \<Rightarrow> bool" where
  "truthy JNull = False"
| "truthy (JBool b) = b"
| "truthy (JInt n) = (n \<noteq> 0)"
| "truthy (JFloat x) = (x \<noteq> 0)"
| "truthy (JStr s) = (s \<noteq> [])"
| "truthy (JArr xs) = (xs \<noteq> [])"
| "truthy (JObj kvs) = (kvs \<noteq> [])"

definition py_or :: "json \<Rightarrow> json \<Rightarrow> json" where
  "py_or a b = (if truthy a then a else b)"

definition dict_get :: "pydict \<Rightarrow> string \<Rightarrow> json" where
  "dict_get d k = (case map_of d k of None \<Rightarrow> JNull | Some v \<Rightarrow> v)"

text \<open>
  An exception is its class name and the text \<open>str(e)\<close>. A computation that may raise
  returns \<open>py_exn + 'a\<close>, with \<open>Inl\<close> the exception raised.
\<close>

datatype py_exn = Exn (exn_class: string) (exn_str: string)

text \<open>\<open>v.get(k)\<close> on a value that may not be a dictionary: only a dictionary has \<open>get\<close>.\<close>

definition obj_get :: "json \<Rightarrow> string \<Rightarrow> py_exn + json" where
  "obj_get v k = (case v of
       JObj kvs \<Rightarrow> Inr (dict_get kvs k)
     | _ \<Rightarrow> Inl (Exn ''AttributeError'' ''object has no attribute get''))"

text \<open>\<open>os.getenv(k, d)\<close> on the process environment.\<close>

definition getenv :: "(string \<rightharpoonup> string) \<Rightarrow> string \<Rightarrow> string \<Rightarrow> string" where
  "getenv env k d = (case env k of None \<Rightarrow> d | Some v \<Rightarrow> v)"

section \<open>The result schema (task.py, the pydantic models)\<close>

record Recommendation =
  rec_action :: string
  rec_rationale :: string
  rec_confidence :: int

record RiskItem =
  risk_name :: string
  risk_severity :: string
  risk_impact :: string
  risk_likelihood :: string
  risk_mitigation :: string

record MarketInsight =
  mi_topic :: string
  mi_insight :: string
  mi_evidence :: string

record Metrics =
  revenue_yoy :: "real option"
  gross_margin :: "real option"
  ebitda_margin :: "real option"
  guidance_change :: "string option"

record DocumentMetadata =
  md_company :: "string option"
  md_quarter :: "string option"
  md_year :: "int option"
  md_source :: "string option"
  md_pages :: "int option"

record AnalysisResult =
  ar_metadata :: DocumentMetadata
  ar_recommendation :: Recommendation
  ar_risks :: "RiskItem list"
  ar_insights :: "MarketInsight list"
  ar_key_metrics :: "Metrics option"
  ar_quotes :: "string list"
  ar_limitations :: string

subsection \<open>Validation\<close>

text \<open>
  The classes declare the fields, which of them have a default, the literal sets and the
  bounds of \<open>confidence\<close>; pydantic validates a candidate against them. What it accepts
  for the scalar types \<open>str\<close>, \<open>int\<close> and \<open>float\<close> is the library's (its conversion
  table), so the scalar validators are parameters: \<open>sc_str\<close>, \<open>sc_int\<close>, \<open>sc_float\<close>
  return the validated value or \<open>None\<close> for a value the library rejects. A validation
  error is the list of the places that failed, as pydantic reports all of them.
\<close>

record scalars =
  sc_str :: "json \<Rightarrow> string option"
  sc_int :: "json \<Rightarrow> int option"
  sc_float :: "json \<Rightarrow> real option"

datatype loc_item = Key string | Idx nat

datatype verror = Missing "loc_item list" | Invalid "loc_item list"

type_synonym 'a validated = "verror list + 'a"

definition errs :: "'e list + 'a \<Rightarrow> 'e list" where
  "errs v = (case v of Inl es \<Rightarrow> es | Inr _ \<Rightarrow> [])"

text \<open>One more field of a model: the errors of all fields are collected.\<close>

definition ap :: "('a \<Rightarrow> 'b) validated \<Rightarrow> 'a validated \<Rightarrow> 'b validated" where
  "ap f x = (case (f, x) of
       (Inr g, Inr a) \<Rightarrow> Inr (g a)
     | _ \<Rightarrow> Inl (errs f @ errs x))"

fun collect :: "'a validated list \<Rightarrow> 'a list validated" where
  "collect [] = Inr []"
| "collect (v # vs) = ap (ap (Inr (#)) v) (collect vs)"

text \<open>A value of type \<open>T\<close>, and of type \<open>Optional[T]\<close> (where \<open>None\<close> passes).\<close>

definition required :: "(json \<Rightarrow> 'a option) \<Rightarrow> loc_item list \<Rightarrow> json \<Rightarrow> 'a validated" where
  "required p loc v = (case p v of Some x \<Rightarrow> Inr x | None \<Rightarrow> Inl [Invalid loc])"

definition optional :: "(json \<Rightarrow> 'a option) \<Rightarrow> loc_item list \<Rightarrow> json \<Rightarrow> 'a option validated" where
  "optional p loc v =
     (if v = JNull then Inr None
      else case p v of Some x \<Rightarrow> Inr (Some x) | None \<Rightarrow> Inl [Invalid loc])"

text \<open>\<open>Literal[...]\<close>: one of the listed strings, exactly.\<close>

definition literal_of :: "string list \<Rightarrow> json \<Rightarrow> string option" where
  "literal_of lits v = (case v of
       JStr s \<Rightarrow> (if s \<in> set lits then Some s else None)
     | _ \<Rightarrow> None)"

text \<open>\<open>conint(ge=lo, le=hi)\<close>: an \<open>int\<close> within the bounds.\<close>

definition conint :: "scalars \<Rightarrow> int \<Rightarrow> int \<Rightarrow> json \<Rightarrow> int option" where
  "conint sc lo hi v = (case sc_int sc v of
       Some n \<Rightarrow> (if lo \<le> n \<and> n \<le> hi then Some n else None)
     | None \<Rightarrow> None)"

text \<open>
  A field read from a candidate dictionary: a field with no default is missing when its
  key is absent; a field with the default \<open>None\<close> is \<open>None\<close> then. Keys the model does
  not declare are ignored.
\<close>

definition key_required :: "pydict \<Rightarrow> loc_item list \<Rightarrow> string \<Rightarrow> (loc_item list \<Rightarrow> json \<Rightarrow> 'a validated) \<Rightarrow> 'a validated" where
  "key_required d loc k p = (case map_of d k of
       None \<Rightarrow> Inl [Missing (loc @ [Key k])]
     | Some v \<Rightarrow> p (loc @ [Key k]) v)"

definition key_default_none :: "pydict \<Rightarrow> loc_item list \<Rightarrow> string \<Rightarrow> (loc_item list \<Rightarrow> json \<Rightarrow> 'a option validated) \<Rightarrow> 'a option validated" where
  "key_default_none d loc k p = (case map_of d k of
       None \<Rightarrow> Inr None
     | Some v \<Rightarrow> p (loc @ [Key k]) v)"

definition list_of :: "(loc_item list \<Rightarrow> json \<Rightarrow> 'a validated) \<Rightarrow> loc_item list \<Rightarrow> json \<Rightarrow> 'a list validated" where
  "list_of p loc v = (case v of
       JArr xs \<Rightarrow> collect (map (\<lambda>(i, x). p (loc @ [Idx i]) x) (enumerate 0 xs))
     | _ \<Rightarrow> Inl [Invalid loc])"

definition validate_Recommendation :: "scalars \<Rightarrow> loc_item list \<Rightarrow> json \<Rightarrow> Recommendation validated" where
  "validate_Recommendation sc loc v = (case v of
       JObj d \<Rightarrow>
         ap (ap (ap (Inr (\<lambda>a r c. \<lparr>rec_action = a, rec_rationale = r, rec_confidence = c\<rparr>))
           (key_required d loc ''action'' (required (literal_of [''buy'', ''hold'', ''sell'']))))
           (key_required d loc ''rationale'' (required (sc_str sc))))
           (key_required d loc ''confidence'' (required (conint sc 0 100)))
     | _ \<Rightarrow> Inl [Invalid loc])"

definition validate_RiskItem :: "scalars \<Rightarrow> loc_item list \<Rightarrow> json \<Rightarrow> RiskItem validated" where
  "validate_RiskItem sc loc v = (case v of
       JObj d \<Rightarrow>
         ap (ap (ap (ap (ap (Inr (\<lambda>n s i l m. \<lparr>risk_name = n, risk_severity = s, risk_impact = i,
                                            risk_likelihood = l, risk_mitigation = m\<rparr>))
           (key_required d loc ''name'' (required (sc_str sc))))
           (key_required d loc ''severity'' (required (literal_of [''low'', ''medium'', ''high'', ''critical'']))))
           (key_required d loc ''impact'' (required (sc_str sc))))
           (key_required d loc ''likelihood'' (required (literal_of [''low'', ''medium'', ''high'']))))
           (key_required d loc ''mitigation'' (required (sc_str sc)))
     | _ \<Rightarrow> Inl [Invalid loc])"

definition validate_MarketInsight :: "scalars \<Rightarrow> loc_item list \<Rightarrow> json \<Rightarrow> MarketInsight validated" where
  "validate_MarketInsight sc loc v = (case v of
       JObj d \<Rightarrow>
         ap (ap (ap (Inr (\<lambda>t i e. \<lparr>mi_topic = t, mi_insight = i, mi_evidence = e\<rparr>))
           (key_required d loc ''topic'' (required (sc_str sc))))
           (key_required d loc ''insight'' (required (sc_str sc))))
           (key_required d loc ''evidence'' (required (sc_str sc)))
     | _ \<Rightarrow> Inl [Invalid loc])"

definition validate_Metrics :: "scalars \<Rightarrow> loc_item list \<Rightarrow> json \<Rightarrow> Metrics validated" where
  "validate_Metrics sc loc v = (case v of
       JObj d \<Rightarrow>
         ap (ap (ap (ap (Inr (\<lambda>r g e c. \<lparr>revenue_yoy = r, gross_margin = g, ebitda_margin = e,
                                         guidance_change = c\<rparr>))
           (key_default_none d loc ''revenue_yoy'' (optional (sc_float sc))))
           (key_default_none d loc ''gross_margin'' (optional (sc_float sc))))
           (key_default_none d loc ''ebitda_margin'' (optional (sc_float sc))))
           (key_default_none d loc ''guidance_change'' (optional (sc_str sc)))
     | _ \<Rightarrow> Inl [Invalid loc])"

definition validate_DocumentMetadata :: "scalars \<Rightarrow> loc_item list \<Rightarrow> json \<Rightarrow> DocumentMetadata validated" where
  "validate_DocumentMetadata sc loc v = (case v of
       JObj d \<Rightarrow>
         ap (ap (ap (ap (ap (Inr (\<lambda>c q y s p. \<lparr>md_company = c, md_quarter = q, md_year = y,
                                            md_source = s, md_pages = p\<rparr>))
           (key_default_none d loc ''company'' (optional (sc_str sc))))
           (key_default_none d loc ''quarter'' (optional (sc_str sc))))
           (key_default_none d loc ''year'' (optional (sc_int sc))))
           (key_default_none d loc ''source'' (optional (sc_str sc))))
           (key_default_none d loc ''pages'' (optional (sc_int sc)))
     | _ \<Rightarrow> Inl [Invalid loc])"

text \<open>\<open>Optional[Metrics]\<close>: \<open>None\<close> passes, anything else is validated as \<open>Metrics\<close>.\<close>

definition optional_Metrics :: "scalars \<Rightarrow> loc_item list \<Rightarrow> json \<Rightarrow> Metrics option validated" where
  "optional_Metrics sc loc v =
     (if v = JNull then Inr None
      else case validate_Metrics sc loc v of Inr m \<Rightarrow> Inr (Some m) | Inl es \<Rightarrow> Inl es)"

definition validate_AnalysisResult :: "scalars \<Rightarrow> json \<Rightarrow> AnalysisResult validated" where
  "validate_AnalysisResult sc v = (case v of
       JObj d \<Rightarrow>
         ap (ap (ap (ap (ap (ap (ap (Inr (\<lambda>m r rs is k q l.
               \<lparr>ar_metadata = m, ar_recommendation = r, ar_risks = rs, ar_insights = is,
                ar_key_metrics = k, ar_quotes = q, ar_limitations = l\<rparr>))
           (key_required d [] ''metadata'' (validate_DocumentMetadata sc)))
           (key_required d [] ''recommendation'' (validate_Recommendation sc)))
           (key_required d [] ''risks'' (list_of (validate_RiskItem sc))))
           (key_required d [] ''insights'' (list_of (validate_MarketInsight sc))))
           (key_default_none d [] ''key_metrics'' (optional_Metrics sc)))
           (key_required d [] ''quotes'' (list_of (required (sc_str sc)))))
           (key_required d [] ''limitations'' (required (sc_str sc)))
     | _ \<Rightarrow> Inl [Invalid []])"

text \<open>
  The library itself: the scalar validators it applies to Python values (a constructor
  call) and to JSON values (\<open>model_validate_json\<close>), its JSON decoder (\<open>None\<close> for text
  that is not JSON) and the text \<open>str(e)\<close> of a \<open>ValidationError\<close>.
\<close>

record pydantic =
  python_scalars :: scalars
  json_scalars :: scalars
  from_json :: "string \<Rightarrow> json option"
  describe :: "verror list \<Rightarrow> string"

definition raise_ValidationError :: "pydantic \<Rightarrow> 'a validated \<Rightarrow> py_exn + 'a" where
  "raise_ValidationError pd v = (case v of
       Inl es \<Rightarrow> Inl (Exn ''ValidationError'' (describe pd es))
     | Inr x \<Rightarrow> Inr x)"

definition model_validate_json :: "pydantic \<Rightarrow> string \<Rightarrow> AnalysisResult validated" where
  "model_validate_json pd s = (case from_json pd s of
       None \<Rightarrow> Inl [Invalid []]
     | Some v \<Rightarrow> validate_AnalysisResult (json_scalars pd) v)"

text \<open>
  \<open>DocumentMetadata(company=..., quarter=..., year=..., source=..., pages=...)\<close>: the
  constructor validates its five keyword arguments.
\<close>

definition mk_DocumentMetadata :: "scalars \<Rightarrow> json \<Rightarrow> json \<Rightarrow> json \<Rightarrow> json \<Rightarrow> json \<Rightarrow> DocumentMetadata validated" where
  "mk_DocumentMetadata sc company quarter year source pages =
     validate_DocumentMetadata sc []
       (JObj [(''company'', company), (''quarter'', quarter), (''year'', year),
              (''source'', source), (''pages'', pages)])"

section \<open>Extraction of the JSON object (task.py, \<open>_extract_json_str\<close>)\<close>

text \<open>
  The loop \<open>for i in range(start, len(s))\<close> with its three variables. It returns from
  inside the loop at the closing brace that brings \<open>depth\<close> to zero, and falls through
  to \<open>return s\<close> when the range is exhausted.
\<close>

function scan_from :: "string \<Rightarrow> nat \<Rightarrow> nat \<Rightarrow> int \<Rightarrow> bool \<Rightarrow> bool \<Rightarrow> string" where
  "scan_from s start i depth in_str esc =
     (if i < length s then
        (let ch = s ! i in
         if in_str then
           (if esc then scan_from s start (i + 1) depth in_str False
            else if ch = CHR 0x5C then scan_from s start (i + 1) depth in_str True
            else if ch = CHR 0x22 then scan_from s start (i + 1) depth False esc
            else scan_from s start (i + 1) depth in_str esc)
         else
           (if ch = CHR 0x22 then scan_from s start (i + 1) depth True esc
            else if ch = CHR ''{'' then scan_from s start (i + 1) (depth + 1) in_str esc
            else if ch = CHR ''}'' then
              (if depth - 1 = 0 then strip (strip_chars ''`'' (strip (slice s start (i + 1))))
               else scan_from s start (i + 1) (depth - 1) in_str esc)
            else scan_from s start (i + 1) depth in_str esc))
      else s)"
  by pat_completeness auto
termination
  by (relation "measure (\<lambda>(s, start, i, depth, in_str, esc). length s - i)") auto

declare scan_from.simps [simp del]

definition extract_json_str :: "string \<Rightarrow> string" where
  "extract_json_str s0 =
     (let s = strip s0;
          s = (if startswith s ''```'' then strip (strip_chars ''`'' s) else s);
          start = str_find s CHR ''{''
      in if start = - 1 then s
         else scan_from s (nat start) (nat start) 0 False False)"

subsection \<open>The scan as the specification words it\<close>

text \<open>
  The specification's reading of the same step, for comparison with the loop: the
  scanner's state after a run of characters (brace depth, inside a string literal,
  after a backslash), the first position from \<open>start\<close> on at which the depth is back
  at zero, and the preparation of the input (trimmed; when it opens with a fence, the
  backticks at both ends dropped and trimmed again).
\<close>

fun scan_step :: "int \<times> bool \<times> bool \<Rightarrow> char \<Rightarrow> int \<times> bool \<times> bool" where
  "scan_step (depth, in_str, esc) ch =
     (if in_str then
        (if esc then (depth, True, False)
         else if ch = CHR 0x5C then (depth, True, True)
         else if ch = CHR 0x22 then (depth, False, esc)
         else (depth, True, esc))
      else
        (if ch = CHR 0x22 then (depth, True, esc)
         else if ch = CHR ''{'' then (depth + 1, False, esc)
         else if ch = CHR ''}'' then (depth - 1, False, esc)
         else (depth, False, esc)))"

definition scan_state :: "string \<Rightarrow> int \<times> bool \<times> bool" where
  "scan_state cs = foldl scan_step (0, False, False) cs"

definition depth_zero_at :: "string \<Rightarrow> nat \<Rightarrow> nat \<Rightarrow> bool" where
  "depth_zero_at s start i = (fst (scan_state (slice s start (i + 1))) = 0)"

definition matching_close :: "string \<Rightarrow> nat \<Rightarrow> nat option" where
  "matching_close s start = List.find (depth_zero_at s start) [start..<length s]"

definition unfence :: "string \<Rightarrow> string" where
  "unfence s = (if startswith s ''```'' then strip (strip_chars ''`'' s) else s)"

definition first_brace :: "string \<Rightarrow> nat" where
  "first_brace s = length (takeWhile (\<lambda>x. x \<noteq> CHR ''{'') s)"

definition extract_json_spec :: "string \<Rightarrow> string" where
  "extract_json_spec s0 =
     (let s = unfence (strip s0) in
      if CHR ''{'' \<notin> set s then s
      else (case matching_close s (first_brace s) of
              None \<Rightarrow> s
            | Some i \<Rightarrow> slice s (first_brace s) (i + 1)))"

section \<open>The analysis engine (task.py)\<close>

subsection \<open>The mock result\<close>

text \<open>
  \<open>meta\<close> is the dictionary of hints. The evidence text of the no-growth case is an em
  dash in the source, a code point above 255; it is written as a hyphen here.
\<close>

definition growth_keywords :: "string list" where
  "growth_keywords = [''increase'', ''grew'', ''up '', ''growth'', ''higher'']"

definition mock_result :: "pydantic \<Rightarrow> string \<Rightarrow> pydict \<Rightarrow> py_exn + AnalysisResult" where
  "mock_result pd txt meta =
     (let t = lower txt;
          growth = list_ex (\<lambda>k. contains t k) growth_keywords;
          margin = (contains t ''margin'' \<or> contains t ''bps'');
          rec = (if growth \<and> margin then ''buy'' else (if growth then ''hold'' else ''sell''))
      in case raise_ValidationError pd
             (mk_DocumentMetadata (python_scalars pd)
                (py_or (dict_get meta ''company'') (JStr ''UnknownCo''))
                (py_or (dict_get meta ''quarter'') (JStr ''Q?''))
                (dict_get meta ''year'')
                (py_or (dict_get meta ''source'') (JStr ''uploaded.pdf''))
                (dict_get meta ''pages''))
         of Inl e \<Rightarrow> Inl e
          | Inr md \<Rightarrow> Inr
             \<lparr>ar_metadata = md,
              ar_recommendation =
                \<lparr>rec_action = rec,
                 rec_rationale = ''Mock analysis using keywords (growth/margin).'',
                 rec_confidence = 65\<rparr>,
              ar_risks =
                [\<lparr>risk_name = ''Data completeness'',
                  risk_severity = ''medium'',
                  risk_impact = ''Heuristic mock may miss context.'',
                  risk_likelihood = ''medium'',
                  risk_mitigation = ''Use real model when quota is available.''\<rparr>],
              ar_insights =
                [\<lparr>mi_topic = ''Growth'',
                  mi_insight = (if growth then ''Growth keywords detected.''
                                else ''No clear growth signals detected.''),
                  mi_evidence = (if growth then ''increase/grew/up/higher'' else ''-'')\<rparr>],
              ar_key_metrics =
                Some \<lparr>revenue_yoy = None, gross_margin = None, ebitda_margin = None,
                      guidance_change = None\<rparr>,
              ar_quotes = [],
              ar_limitations = ''This is a mock result generated without calling the model.''\<rparr>)"

subsection \<open>The model call\<close>

text \<open>
  The model client is a capability: \<open>client_init\<close> is what \<open>OpenAI()\<close> raises, if
  anything, and \<open>completion model snippet meta\<close> is the outcome of
  \<open>client.chat.completions.create(...)\<close> followed by \<open>resp.choices[0].message.content\<close>:
  an exception, or the content, which may be \<open>None\<close>. The schema, the system prompt and
  the worked example in the messages are constants of the program.
\<close>

record openai =
  client_init :: "py_exn option"
  completion :: "string \<Rightarrow> string \<Rightarrow> pydict \<Rightarrow> py_exn + string option"

text \<open>
  The body of the \<open>try\<close> block, and the function around it. The function reads
  \<open>MOCK_LLM\<close> twice, at its first line and in the handler; nothing in the program
  writes the environment in between, so both reads are of the one \<open>env\<close>.
\<close>

definition model_attempt :: "pydantic \<Rightarrow> (string \<rightharpoonup> string) \<Rightarrow> openai \<Rightarrow> string \<Rightarrow> pydict \<Rightarrow> py_exn + AnalysisResult" where
  "model_attempt pd env ai txt meta =
     (let snippet = (if length txt < 180000 then txt else take 180000 txt) in
      case completion ai (getenv env ''OPENAI_MODEL'' ''gpt-4o-mini'') snippet meta of
        Inl e \<Rightarrow> Inl e
      | Inr content \<Rightarrow>
          (let raw = (case content of None \<Rightarrow> [] | Some c \<Rightarrow> c);
               json_text = extract_json_str raw
           in raise_ValidationError pd (model_validate_json pd json_text)))"

definition llm_analyze_financials :: "pydantic \<Rightarrow> (string \<rightharpoonup> string) \<Rightarrow> openai \<Rightarrow> string \<Rightarrow> pydict \<Rightarrow> py_exn + AnalysisResult" where
  "llm_analyze_financials pd env ai txt meta =
     (if getenv env ''MOCK_LLM'' ''0'' = ''1'' then mock_result pd txt meta
      else case client_init ai of
        Some e \<Rightarrow> Inl e
      | None \<Rightarrow>
          (case model_attempt pd env ai txt meta of
             Inr r \<Rightarrow> Inr r
           | Inl e \<Rightarrow>
               (if getenv env ''MOCK_LLM'' ''0'' = ''1'' then mock_result pd txt meta
                else Inl (Exn ''RuntimeError'' (''Model call failed: '' @ exn_str e)))))"

section \<open>Text extraction (tools.py)\<close>

text \<open>
  The two PDF libraries are capabilities: each, given the bytes, fails as a whole or
  yields the pages, and a page's \<open>extract_text()\<close> raises or returns text or \<open>None\<close>.
  Re-encoding the text as UTF-8 with replacement changes lone surrogates only, which
  code points below 256 do not include.
\<close>

type_synonym page = "py_exn + string option"

record pdf_libs =
  pypdf_reader :: "string \<Rightarrow> py_exn + page list"
  pdfplumber_open :: "string \<Rightarrow> py_exn + page list"

record extraction =
  ex_text :: string
  ex_pages :: int

definition page_chunk :: "page \<Rightarrow> string" where
  "page_chunk p = (case p of
       Inl e \<Rightarrow> []
     | Inr None \<Rightarrow> []
     | Inr (Some t) \<Rightarrow> t)"

definition utf8_replace :: "string \<Rightarrow> string" where
  "utf8_replace s = s"

definition extracted :: "page list \<Rightarrow> extraction" where
  "extracted ps =
     \<lparr>ex_text = utf8_replace (join [CHR 0x0A] (map page_chunk ps)),
      ex_pages = int (length ps)\<rparr>"

definition extract_text_from_pdf_bytes :: "pdf_libs \<Rightarrow> string \<Rightarrow> py_exn + extraction" where
  "extract_text_from_pdf_bytes libs pdf_bytes =
     (case pypdf_reader libs pdf_bytes of
        Inr ps \<Rightarrow> Inr (extracted ps)
      | Inl e_pypdf \<Rightarrow>
          (case pdfplumber_open libs pdf_bytes of
             Inr ps \<Rightarrow> Inr (extracted ps)
           | Inl e_plumb \<Rightarrow>
               Inl (Exn ''RuntimeError''
                 (''PDF extraction requires pypdf (recommended) or pdfplumber. '' @
                  ''Install with: pip install pypdf pdfplumber''))))"

subsection \<open>The public entry\<close>

text \<open>
  \<open>model_dump\<close> is \<open>json.loads(result.model_dump_json())\<close>: the result as a dictionary.
\<close>

definition dump_opt :: "('a \<Rightarrow> json) \<Rightarrow> 'a option \<Rightarrow> json" where
  "dump_opt f v = (case v of None \<Rightarrow> JNull | Some x \<Rightarrow> f x)"

definition dump_DocumentMetadata :: "DocumentMetadata \<Rightarrow> json" where
  "dump_DocumentMetadata m = JObj
     [(''company'', dump_opt JStr (md_company m)),
      (''quarter'', dump_opt JStr (md_quarter m)),
      (''year'', dump_opt JInt (md_year m)),
      (''source'', dump_opt JStr (md_source m)),
      (''pages'', dump_opt JInt (md_pages m))]"

definition dump_Recommendation :: "Recommendation \<Rightarrow> json" where
  "dump_Recommendation r = JObj
     [(''action'', JStr (rec_action r)),
      (''rationale'', JStr (rec_rationale r)),
      (''confidence'', JInt (rec_confidence r))]"

definition dump_RiskItem :: "RiskItem \<Rightarrow> json" where
  "dump_RiskItem r = JObj
     [(''name'', JStr (risk_name r)),
      (''severity'', JStr (risk_severity r)),
      (''impact'', JStr (risk_impact r)),
      (''likelihood'', JStr (risk_likelihood r)),
      (''mitigation'', JStr (risk_mitigation r))]"

definition dump_MarketInsight :: "MarketInsight \<Rightarrow> json" where
  "dump_MarketInsight i = JObj
     [(''topic'', JStr (mi_topic i)),
      (''insight'', JStr (mi_insight i)),
      (''evidence'', JStr (mi_evidence i))]"

definition dump_Metrics :: "Metrics \<Rightarrow> json" where
  "dump_Metrics m = JObj
     [(''revenue_yoy'', dump_opt JFloat (revenue_yoy m)),
      (''gross_margin'', dump_opt JFloat (gross_margin m)),
      (''ebitda_margin'', dump_opt JFloat (ebitda_margin m)),
      (''guidance_change'', dump_opt JStr (guidance_change m))]"

definition model_dump :: "AnalysisResult \<Rightarrow> pydict" where
  "model_dump r =
     [(''metadata'', dump_DocumentMetadata (ar_metadata r)),
      (''recommendation'', dump_Recommendation (ar_recommendation r)),
      (''risks'', JArr (map dump_RiskItem (ar_risks r))),
      (''insights'', JArr (map dump_MarketInsight (ar_insights r))),
      (''key_metrics'', dump_opt dump_Metrics (ar_key_metrics r)),
      (''quotes'', JArr (map JStr (ar_quotes r))),
      (''limitations'', JStr (ar_limitations r))]"

text \<open>
  The rest of the world of \<open>run_analysis\<close>: reading the file, and the optional CrewAI
  step, whose outcome is what it raises, if anything (its return value is dropped).
\<close>

record world =
  w_pydantic :: pydantic
  w_env :: "string \<rightharpoonup> string"
  w_openai :: openai
  w_pdf_libs :: pdf_libs
  w_read_file :: "string \<Rightarrow> py_exn + string"
  w_crew_kickoff :: "string \<Rightarrow> string \<Rightarrow> py_exn option"

definition run_analysis :: "world \<Rightarrow> string \<Rightarrow> string \<Rightarrow> py_exn + pydict" where
  "run_analysis w query file_path =
     (case w_read_file w file_path of
        Inl e \<Rightarrow> Inl e
      | Inr pdf_bytes \<Rightarrow>
          (case extract_text_from_pdf_bytes (w_pdf_libs w) pdf_bytes of
             Inl e \<Rightarrow> Inl e
           | Inr ext \<Rightarrow>
               (let meta = [(''company'', JNull), (''quarter'', JNull), (''year'', JNull),
                            (''source'', JStr file_path), (''pages'', JInt (ex_pages ext))]
                in case (if getenv (w_env w) ''CREWAI_ENABLED'' ''0'' = ''1''
                         then w_crew_kickoff w query (take 180000 (ex_text ext)) else None) of
                     Some e \<Rightarrow> Inl e
                   | None \<Rightarrow>
                       (case llm_analyze_financials (w_pydantic w) (w_env w) (w_openai w) (ex_text ext) meta of
                          Inl e \<Rightarrow> Inl e
                        | Inr result \<Rightarrow> Inr (model_dump result)))))"

section \<open>The job store (models.py, db.py)\<close>

text \<open>
  The tables \<open>jobs\<close> and \<open>analyses\<close> as lists of rows. \<open>created_at\<close> is a time stamp.
  The six filter columns of \<open>analyses\<close> hold what the worker binds to them, a dynamic
  value (\<open>JNull\<close> is SQL \<open>NULL\<close>). The table \<open>users\<close> is written by the intake only and is
  left out.
\<close>

record job =
  job_id :: string
  job_user_id :: "string option"
  job_created_at :: nat
  job_status :: string
  job_error :: "string option"
  job_file_path :: "string option"
  job_query :: "string option"

record analysis =
  an_id :: string
  an_job_id :: string
  an_result_json :: string
  an_company :: json
  an_quarter :: json
  an_year :: json
  an_recommendation_action :: json
  an_confidence :: json
  an_pages :: json

record store =
  jobs :: "job list"
  analyses :: "analysis list"

text \<open>
  The constraints the schema declares: the primary keys \<open>jobs.id\<close> and \<open>analyses.id\<close>,
  and \<open>unique=True\<close> on \<open>analyses.job_id\<close>.
\<close>

definition constraints_ok :: "store \<Rightarrow> bool" where
  "constraints_ok db =
     (distinct (map job_id (jobs db)) \<and>
      distinct (map an_id (analyses db)) \<and>
      distinct (map an_job_id (analyses db)))"

text \<open>
  A session works on its own view of the store. The database can fail for reasons of
  its own (a lost connection, a locked file): \<open>get_fault\<close> is what \<open>session.get\<close>
  raises, if anything, and \<open>commit_fault\<close> what \<open>session.commit\<close> raises before the
  constraints are even checked. \<open>commit\<close> writes the view back when the constraints
  hold, and raises otherwise. \<open>session_scope\<close> runs a body on the view: when the body
  raises, or the commit does, the view is dropped (\<open>rollback\<close>) and the exception is
  raised again; the store the caller sees is the old one.
\<close>

record db_faults =
  get_fault :: "py_exn option"
  commit_fault :: "py_exn option"

definition commit :: "db_faults \<Rightarrow> store \<Rightarrow> py_exn + store" where
  "commit faults view =
     (case commit_fault faults of
        Some e \<Rightarrow> Inl e
      | None \<Rightarrow>
          (if constraints_ok view then Inr view
           else Inl (Exn ''IntegrityError'' ''UNIQUE constraint failed'')))"

definition session_scope :: "db_faults \<Rightarrow> store \<Rightarrow> (store \<Rightarrow> store \<times> (py_exn + 'a)) \<Rightarrow> store \<times> (py_exn + 'a)" where
  "session_scope faults db body =
     (case body db of
        (view, Inl e) \<Rightarrow> (db, Inl e)
      | (view, Inr v) \<Rightarrow>
          (case commit faults view of
             Inl e \<Rightarrow> (db, Inl e)
           | Inr db' \<Rightarrow> (db', Inr v)))"

text \<open>\<open>session.get(Job, job_id)\<close>, and the assignment to the loaded row's columns.\<close>

definition get_job :: "store \<Rightarrow> string \<Rightarrow> job option" where
  "get_job view jid = List.find (\<lambda>j. job_id j = jid) (jobs view)"

definition set_job_outcome :: "string \<Rightarrow> string \<Rightarrow> string option \<Rightarrow> store \<Rightarrow> store" where
  "set_job_outcome jid st err view =
     view\<lparr>jobs := map (\<lambda>j. if job_id j = jid then j\<lparr>job_status := st, job_error := err\<rparr> else j)
                       (jobs view)\<rparr>"

definition add_analysis :: "analysis \<Rightarrow> store \<Rightarrow> store" where
  "add_analysis a view = view\<lparr>analyses := analyses view @ [a]\<rparr>"

section \<open>The task (tasks_worker.py)\<close>

text \<open>
  The keyword arguments of \<open>Analysis(...)\<close>, evaluated in order; \<open>uuid\<close> is the fresh
  identifier the column default draws, \<open>dumps\<close> is \<open>json.dumps\<close>.
\<close>

definition sub_get :: "pydict \<Rightarrow> string \<Rightarrow> string \<Rightarrow> py_exn + json" where
  "sub_get result outer inner = obj_get (py_or (dict_get result outer) (JObj [])) inner"

definition build_analysis :: "(json \<Rightarrow> string) \<Rightarrow> string \<Rightarrow> string \<Rightarrow> pydict \<Rightarrow> py_exn + analysis" where
  "build_analysis dumps uuid jid result =
     (case sub_get result ''metadata'' ''company'' of Inl e \<Rightarrow> Inl e | Inr company \<Rightarrow>
      case sub_get result ''metadata'' ''quarter'' of Inl e \<Rightarrow> Inl e | Inr quarter \<Rightarrow>
      case sub_get result ''metadata'' ''year'' of Inl e \<Rightarrow> Inl e | Inr year \<Rightarrow>
      case sub_get result ''recommendation'' ''action'' of Inl e \<Rightarrow> Inl e | Inr action \<Rightarrow>
      case sub_get result ''recommendation'' ''confidence'' of Inl e \<Rightarrow> Inl e | Inr confidence \<Rightarrow>
      case sub_get result ''metadata'' ''pages'' of Inl e \<Rightarrow> Inl e | Inr pages \<Rightarrow>
        Inr \<lparr>an_id = uuid, an_job_id = jid, an_result_json = dumps (JObj result),
             an_company = company, an_quarter = quarter, an_year = year,
             an_recommendation_action = action, an_confidence = confidence,
             an_pages = pages\<rparr>)"

text \<open>
  The \<open>try\<close> block up to the construction of the row: \<open>run\<close> is \<open>run_analysis\<close>, whose
  exceptions and those of \<open>Analysis(...)\<close> reach the \<open>except\<close> clause.
\<close>

definition analysis_attempt :: "(json \<Rightarrow> string) \<Rightarrow> string \<Rightarrow> (string \<Rightarrow> string \<Rightarrow> py_exn + pydict) \<Rightarrow>
    string \<Rightarrow> string \<Rightarrow> string \<Rightarrow> py_exn + analysis" where
  "analysis_attempt dumps uuid run jid file_path query =
     (case run query file_path of
        Inl e \<Rightarrow> Inl e
      | Inr result \<Rightarrow> build_analysis dumps uuid jid result)"

text \<open>
  The body of the \<open>with session_scope()\<close> block, on the session's view. The lookup of
  the job stands before the \<open>try\<close> statement. The argument \<open>user_id\<close> of the task is not
  used by its body.
\<close>

definition process_pdf_job_body :: "db_faults \<Rightarrow> (json \<Rightarrow> string) \<Rightarrow> string \<Rightarrow>
    (string \<Rightarrow> string \<Rightarrow> py_exn + pydict) \<Rightarrow> string \<Rightarrow> string \<Rightarrow> string \<Rightarrow> store \<Rightarrow>
    store \<times> (py_exn + json)" where
  "process_pdf_job_body faults dumps uuid run jid file_path query view =
     (case get_fault faults of
        Some e \<Rightarrow> (view, Inl e)
      | None \<Rightarrow>
          (case get_job view jid of
             None \<Rightarrow> (view, Inr (JObj [(''error'', JStr (''Job '' @ jid @ '' not found''))]))
           | Some j \<Rightarrow>
               (case analysis_attempt dumps uuid run jid file_path query of
                  Inr a \<Rightarrow>
                    (set_job_outcome jid ''done'' None (add_analysis a view),
                     Inr (JObj [(''ok'', JBool True)]))
                | Inl e \<Rightarrow>
                    (set_job_outcome jid ''error'' (Some (exn_str e)) view,
                     Inr (JObj [(''error'', JStr (exn_str e))])))))"

definition process_pdf_job :: "db_faults \<Rightarrow> (json \<Rightarrow> string) \<Rightarrow> string \<Rightarrow>
    (string \<Rightarrow> string \<Rightarrow> py_exn + pydict) \<Rightarrow> store \<Rightarrow> string \<Rightarrow> string \<Rightarrow> string \<Rightarrow>
    store \<times> (py_exn + json)" where
  "process_pdf_job faults dumps uuid run db jid file_path query =
     session_scope faults db (process_pdf_job_body faults dumps uuid run jid file_path query)"

section \<open>Well-typed inputs\<close>

text \<open>
  What any mode of the library accepts for a scalar type: a string for \<open>str\<close>, an
  integer for \<open>int\<close>. \<open>strict_scalars\<close> accepts nothing else but an integer for
  \<open>float\<close>; it serves where a concrete library is needed.
\<close>

definition accepts_own_types :: "scalars \<Rightarrow> bool" where
  "accepts_own_types sc =
     ((\<forall>s. sc_str sc (JStr s) = Some s) \<and> (\<forall>n. sc_int sc (JInt n) = Some n))"

definition strict_scalars :: scalars where
  "strict_scalars =
     \<lparr>sc_str = (\<lambda>v. case v of JStr s \<Rightarrow> Some s | _ \<Rightarrow> None),
      sc_int = (\<lambda>v. case v of JInt n \<Rightarrow> Some n | _ \<Rightarrow> None),
      sc_float = (\<lambda>v. case v of JFloat x \<Rightarrow> Some x | JInt n \<Rightarrow> Some (of_int n) | _ \<Rightarrow> None)\<rparr>"

text \<open>Hints as \<open>run_analysis\<close> builds them: strings or \<open>None\<close>, integers or \<open>None\<close>.\<close>

definition str_or_none :: "json \<Rightarrow> bool" where
  "str_or_none v = (case v of JNull \<Rightarrow> True | JStr s \<Rightarrow> True | _ \<Rightarrow> False)"

definition int_or_none :: "json \<Rightarrow> bool" where
  "int_or_none v = (case v of JNull \<Rightarrow> True | JInt n \<Rightarrow> True | _ \<Rightarrow> False)"

definition typed_hints :: "pydict \<Rightarrow> bool" where
  "typed_hints meta =
     (str_or_none (dict_get meta ''company'') \<and> str_or_none (dict_get meta ''quarter'') \<and>
      int_or_none (dict_get meta ''year'') \<and> str_or_none (dict_get meta ''source'') \<and>
      int_or_none (dict_get meta ''pages''))"

definition pydantic_with :: "(string \<Rightarrow> json option) \<Rightarrow> pydantic" where
  "pydantic_with decode =
     \<lparr>python_scalars = strict_scalars, json_scalars = strict_scalars,
      from_json = decode, describe = (\<lambda>es. ''validation error'')\<rparr>"

section \<open>Concrete inputs\<close>

text \<open>A job row, a validated result and the row the worker stores for it.\<close>

definition example_job :: "string \<Rightarrow> string \<Rightarrow> string option \<Rightarrow> job" where
  "example_job jid st err =
     \<lparr>job_id = jid, job_user_id = None, job_created_at = 0, job_status = st, job_error = err,
      job_file_path = Some ''data/report.pdf'', job_query = Some ''Analyze this document''\<rparr>"

definition example_result :: AnalysisResult where
  "example_result =
     \<lparr>ar_metadata = \<lparr>md_company = Some ''SampleCo'', md_quarter = Some ''Q2'', md_year = Some 2025,
                     md_source = Some ''data/report.pdf'', md_pages = Some 2\<rparr>,
      ar_recommendation = \<lparr>rec_action = ''hold'', rec_rationale = ''Flat guide.'', rec_confidence = 72\<rparr>,
      ar_risks = [], ar_insights = [], ar_key_metrics = None, ar_quotes = [],
      ar_limitations = ''Excerpt only.''\<rparr>"

definition example_row :: "string \<Rightarrow> string \<Rightarrow> analysis" where
  "example_row uuid jid =
     \<lparr>an_id = uuid, an_job_id = jid, an_result_json = ''{}'',
      an_company = JStr ''SampleCo'', an_quarter = JStr ''Q2'', an_year = JInt 2025,
      an_recommendation_action = JStr ''hold'', an_confidence = JInt 72, an_pages = JInt 2\<rparr>"

text \<open>
  A database that does not fail, and three stores holding one job: pending; failed;
  succeeded, with its \<open>analyses\<close> row.
\<close>

definition no_faults :: db_faults where
  "no_faults = \<lparr>get_fault = None, commit_fault = None\<rparr>"

definition store_pending :: store where
  "store_pending = \<lparr>jobs = [example_job ''j1'' ''pending'' None], analyses = []\<rparr>"

definition store_errored :: store where
  "store_errored =
     \<lparr>jobs = [example_job ''j1'' ''error'' (Some ''Model call failed: timeout'')], analyses = []\<rparr>"

definition store_done :: store where
  "store_done =
     \<lparr>jobs = [example_job ''j1'' ''done'' None], analyses = [example_row ''a1'' ''j1'']\<rparr>"

text \<open>
  A reader that yields three pages, the second of which fails to extract, with a
  fallback that fails as a whole.
\<close>

definition example_libs :: pdf_libs where
  "example_libs =
     \<lparr>pypdf_reader = (\<lambda>b. Inr [Inr (Some ''Page one''),
                                 Inl (Exn ''ValueError'' ''bad content stream''),
                                 Inr (Some ''Page three'')]),
      pdfplumber_open = (\<lambda>b. Inl (Exn ''ImportError'' ''No module named pdfplumber''))\<rparr>"

text \<open>
  Three model responses and their decoded objects: one whose metadata has no \<open>source\<close>,
  one with \<open>confidence\<close> 101, one with the action \<open>strong_buy\<close>. \<open>decode_examples\<close>
  decodes these three texts and nothing else.
\<close>

definition candidate :: "(string \<times> json) list \<Rightarrow> string \<Rightarrow> int \<Rightarrow> json" where
  "candidate md action confidence = JObj
     [(''metadata'', JObj md),
      (''recommendation'', JObj [(''action'', JStr action), (''rationale'', JStr ''Growth.''),
                                 (''confidence'', JInt confidence)]),
      (''risks'', JArr []), (''insights'', JArr []), (''quotes'', JArr []),
      (''limitations'', JStr ''Excerpt only.'')]"

definition candidate_text :: "string \<Rightarrow> string \<Rightarrow> string \<Rightarrow> string" where
  "candidate_text md action confidence =
     ''{\"metadata\":{'' @ md @ ''},\"recommendation\":{\"action\":\"'' @ action @
     ''\",\"rationale\":\"Growth.\",\"confidence\":'' @ confidence @
     ''},\"risks\":[],\"insights\":[],\"quotes\":[],\"limitations\":\"Excerpt only.\"}''"

definition decode_examples :: "string \<Rightarrow> json option" where
  "decode_examples s =
     (if s = candidate_text ''\"company\":\"SampleCo\"'' ''buy'' ''70''
        then Some (candidate [(''company'', JStr ''SampleCo'')] ''buy'' 70)
      else if s = candidate_text [] ''buy'' ''101'' then Some (candidate [] ''buy'' 101)
      else if s = candidate_text [] ''strong_buy'' ''70'' then Some (candidate [] ''strong_buy'' 70)
      else None)"


definition failing :: "py_exn \<Rightarrow> openai" where
  "failing e = \<lparr>client_init = None, completion = (\<lambda>model snippet meta. Inl e)\<rparr>"

section \<open>The mock result\<close>

lemma contains_iff: "contains t k \<longleftrightarrow> (\<exists>ps ss. t = ps @ k @ ss)"
proof (induction t)
  case Nil
  then show ?case by auto
next
  case (Cons x xs)
  show ?case
  proof
    assume "contains (x # xs) k"
    then consider "take (length k) (x # xs) = k" | "contains xs k" by auto
    then show "\<exists>ps ss. x # xs = ps @ k @ ss"
    proof cases
      case 1
      then have "x # xs = [] @ k @ drop (length k) (x # xs)"
        by (metis append_Nil append_take_drop_id)
      then show ?thesis by blast
    next
      case 2
      then obtain ps ss where "xs = ps @ k @ ss" using Cons.IH by blast
      then have "x # xs = (x # ps) @ k @ ss" by simp
      then show ?thesis by blast
    qed
  next
    assume "\<exists>ps ss. x # xs = ps @ k @ ss"
    then obtain ps ss where e: "x # xs = ps @ k @ ss" by blast
    show "contains (x # xs) k"
    proof (cases ps)
      case Nil
      then have "take (length k) (x # xs) = k" using e by simp
      then show ?thesis by simp
    next
      case (Cons p ps')
      then have "xs = ps' @ k @ ss" using e by simp
      then have "contains xs k" using Cons.IH by blast
      then show ?thesis by simp
    qed
  qed
qed

lemma contains_trans: "contains t k \<Longrightarrow> contains k j \<Longrightarrow> contains t j"
proof -
  assume "contains t k" "contains k j"
  then obtain ps ss ps' ss' where "t = ps @ k @ ss" "k = ps' @ j @ ss'"
    unfolding contains_iff by blast
  then have "t = (ps @ ps') @ j @ (ss' @ ss)" by simp
  then show ?thesis unfolding contains_iff by blast
qed

lemma contains_lower: "contains t k \<Longrightarrow> contains (lower t) (lower k)"
  unfolding contains_iff lower_def by (metis map_append)

lemma example_lower:
  "lower ''revenue grew 15% with margin improvement'' = ''revenue grew 15% with margin improvement''"
  by code_simp

lemma example_grew: "contains ''revenue grew 15% with margin improvement'' ''grew''"
  by code_simp

lemma example_margin: "contains ''revenue grew 15% with margin improvement'' ''margin''"
  by code_simp

lemma ap_Inr_iff: "ap f x = Inr y \<longleftrightarrow> (\<exists>g a. f = Inr g \<and> x = Inr a \<and> y = g a)"
  by (cases f; cases x) (auto simp: ap_def)

lemma optional_Inr_not_null:
  "v \<noteq> JNull \<Longrightarrow> optional p loc v = Inr r \<Longrightarrow> r \<noteq> None \<and> r = p v"
  by (cases "p v") (auto simp: optional_def)

lemma truthy_not_null: "truthy v \<Longrightarrow> v \<noteq> JNull"
  by auto

lemma py_or_default_truthy: "truthy d \<Longrightarrow> truthy (py_or v d)"
  by (simp add: py_or_def)

lemma mk_DocumentMetadata_Inr:
  "mk_DocumentMetadata sc c q y s p = Inr m \<longleftrightarrow>
     (optional (sc_str sc) [Key ''company''] c = Inr (md_company m) \<and>
      optional (sc_str sc) [Key ''quarter''] q = Inr (md_quarter m) \<and>
      optional (sc_int sc) [Key ''year''] y = Inr (md_year m) \<and>
      optional (sc_str sc) [Key ''source''] s = Inr (md_source m) \<and>
      optional (sc_int sc) [Key ''pages''] p = Inr (md_pages m))"
  by (cases m) (auto simp: mk_DocumentMetadata_def validate_DocumentMetadata_def ap_Inr_iff key_default_none_def)

lemma mock_result_Inr:
  assumes "mock_result pd txt meta = Inr r"
  shows "mk_DocumentMetadata (python_scalars pd)
            (py_or (dict_get meta ''company'') (JStr ''UnknownCo''))
            (py_or (dict_get meta ''quarter'') (JStr ''Q?''))
            (dict_get meta ''year'')
            (py_or (dict_get meta ''source'') (JStr ''uploaded.pdf''))
            (dict_get meta ''pages'') = Inr (ar_metadata r)"
    and "rec_action (ar_recommendation r) =
          (if list_ex (\<lambda>k. contains (lower txt) k) growth_keywords \<and>
              (contains (lower txt) ''margin'' \<or> contains (lower txt) ''bps'') then ''buy''
           else if list_ex (\<lambda>k. contains (lower txt) k) growth_keywords then ''hold''
           else ''sell'')"
    and "rec_confidence (ar_recommendation r) = 65"
    and "length (ar_risks r) = 1" and "length (ar_insights r) = 1" and "ar_quotes r = []"
  using assms
  by (auto simp: mock_result_def raise_ValidationError_def Let_def split: sum.splits)

lemma mock_result_returns:
  assumes "accepts_own_types (python_scalars pd)" "typed_hints meta"
  shows "\<exists>r. mock_result pd txt meta = Inr r"
proof -
  let ?sc = "python_scalars pd"
  have s: "\<And>v d loc. str_or_none v \<Longrightarrow> \<exists>x. optional (sc_str ?sc) loc (py_or v (JStr d)) = Inr x"
    using assms(1)
    by (auto simp: str_or_none_def optional_def py_or_def accepts_own_types_def split: json.splits)
  have i: "\<And>v loc. int_or_none v \<Longrightarrow> \<exists>x. optional (sc_int ?sc) loc v = Inr x"
    using assms(1)
    by (auto simp: int_or_none_def optional_def accepts_own_types_def split: json.splits)
  obtain c where c: "optional (sc_str ?sc) [Key ''company''] (py_or (dict_get meta ''company'') (JStr ''UnknownCo'')) = Inr c"
    using s assms(2) unfolding typed_hints_def by blast
  obtain q where q: "optional (sc_str ?sc) [Key ''quarter''] (py_or (dict_get meta ''quarter'') (JStr ''Q?'')) = Inr q"
    using s assms(2) unfolding typed_hints_def by blast
  obtain y where y: "optional (sc_int ?sc) [Key ''year''] (dict_get meta ''year'') = Inr y"
    using i assms(2) unfolding typed_hints_def by blast
  obtain so where so: "optional (sc_str ?sc) [Key ''source''] (py_or (dict_get meta ''source'') (JStr ''uploaded.pdf'')) = Inr so"
    using s assms(2) unfolding typed_hints_def by blast
  obtain p where p: "optional (sc_int ?sc) [Key ''pages''] (dict_get meta ''pages'') = Inr p"
    using i assms(2) unfolding typed_hints_def by blast
  have "mk_DocumentMetadata ?sc
            (py_or (dict_get meta ''company'') (JStr ''UnknownCo''))
            (py_or (dict_get meta ''quarter'') (JStr ''Q?''))
            (dict_get meta ''year'')
            (py_or (dict_get meta ''source'') (JStr ''uploaded.pdf''))
            (dict_get meta ''pages'')
        = Inr \<lparr>md_company = c, md_quarter = q, md_year = y, md_source = so, md_pages = p\<rparr>"
    unfolding mk_DocumentMetadata_Inr using c q y so p by simp
  then show ?thesis
    by (simp add: mock_result_def raise_ValidationError_def Let_def)
qed

lemma strict_accepts_own_types: "accepts_own_types strict_scalars"
  by (simp add: accepts_own_types_def strict_scalars_def)

lemma optional_py_or:
  assumes "d \<noteq> []" "optional p loc (py_or v (JStr d)) = Inr r"
  shows "r \<noteq> None" "r = p (py_or v (JStr d))"
proof -
  have "py_or v (JStr d) \<noteq> JNull"
    using assms(1) by (intro truthy_not_null py_or_default_truthy) simp
  then show "r \<noteq> None" "r = p (py_or v (JStr d))"
    using optional_Inr_not_null[OF _ assms(2)] by auto
qed

lemma mock_result_defaulted:
  assumes "mock_result pd txt meta = Inr r"
  shows "md_company (ar_metadata r) = sc_str (python_scalars pd) (py_or (dict_get meta ''company'') (JStr ''UnknownCo''))"
    and "md_quarter (ar_metadata r) = sc_str (python_scalars pd) (py_or (dict_get meta ''quarter'') (JStr ''Q?''))"
    and "md_source (ar_metadata r) = sc_str (python_scalars pd) (py_or (dict_get meta ''source'') (JStr ''uploaded.pdf''))"
    and "md_company (ar_metadata r) \<noteq> None" "md_quarter (ar_metadata r) \<noteq> None"
        "md_source (ar_metadata r) \<noteq> None"
proof -
  note m = mock_result_Inr(1)[OF assms, unfolded mk_DocumentMetadata_Inr]
  have c: "optional (sc_str (python_scalars pd)) [Key ''company'']
             (py_or (dict_get meta ''company'') (JStr ''UnknownCo'')) = Inr (md_company (ar_metadata r))"
    using m by simp
  have q: "optional (sc_str (python_scalars pd)) [Key ''quarter'']
             (py_or (dict_get meta ''quarter'') (JStr ''Q?'')) = Inr (md_quarter (ar_metadata r))"
    using m by simp
  have s: "optional (sc_str (python_scalars pd)) [Key ''source'']
             (py_or (dict_get meta ''source'') (JStr ''uploaded.pdf'')) = Inr (md_source (ar_metadata r))"
    using m by simp
  show "md_company (ar_metadata r) = sc_str (python_scalars pd) (py_or (dict_get meta ''company'') (JStr ''UnknownCo''))"
    and "md_company (ar_metadata r) \<noteq> None"
    using optional_py_or[OF _ c] by simp_all
  show "md_quarter (ar_metadata r) = sc_str (python_scalars pd) (py_or (dict_get meta ''quarter'') (JStr ''Q?''))"
    and "md_quarter (ar_metadata r) \<noteq> None"
    using optional_py_or[OF _ q] by simp_all
  show "md_source (ar_metadata r) = sc_str (python_scalars pd) (py_or (dict_get meta ''source'') (JStr ''uploaded.pdf''))"
    and "md_source (ar_metadata r) \<noteq> None"
    using optional_py_or[OF _ s] by simp_all
qed

text \<open>
  C5. In mock mode the action follows the decision table over the lower-cased text:
  \<open>buy\<close> when a growth keyword (increase, grew, "up ", growth, higher) and a margin
  keyword (margin, bps) occur, \<open>hold\<close> when a growth keyword occurs and no margin keyword,
  \<open>sell\<close> when no growth keyword occurs; the confidence is 65; and a text containing
  "revenue grew 15% with margin improvement" yields \<open>buy\<close>. The mock returns a result
  whenever the hints are strings, integers or \<open>None\<close> as their fields declare.
\<close>

theorem mock_result_decision_table:
  "(mock_result pd txt meta = Inr r \<longrightarrow>
      (let t = lower txt;
           growth = (\<exists>k \<in> set [''increase'', ''grew'', ''up '', ''growth'', ''higher'']. contains t k);
           margin = (contains t ''margin'' \<or> contains t ''bps'')
       in (growth \<and> margin \<longrightarrow> rec_action (ar_recommendation r) = ''buy'') \<and>
          (growth \<and> \<not> margin \<longrightarrow> rec_action (ar_recommendation r) = ''hold'') \<and>
          (\<not> growth \<longrightarrow> rec_action (ar_recommendation r) = ''sell'')) \<and>
      rec_confidence (ar_recommendation r) = 65 \<and>
      (contains txt ''revenue grew 15% with margin improvement'' \<longrightarrow>
         rec_action (ar_recommendation r) = ''buy'')) \<and>
   (accepts_own_types (python_scalars pd) \<and> typed_hints meta \<longrightarrow>
      (\<exists>r'. mock_result pd txt meta = Inr r'))"
proof (intro conjI impI)
  assume r: "mock_result pd txt meta = Inr r"
  have g: "list_ex (\<lambda>k. contains (lower txt) k) growth_keywords \<longleftrightarrow>
           (\<exists>k \<in> set [''increase'', ''grew'', ''up '', ''growth'', ''higher'']. contains (lower txt) k)"
    by (simp add: growth_keywords_def list_ex_iff)
  show "let t = lower txt;
            growth = (\<exists>k \<in> set [''increase'', ''grew'', ''up '', ''growth'', ''higher'']. contains t k);
            margin = (contains t ''margin'' \<or> contains t ''bps'')
        in (growth \<and> margin \<longrightarrow> rec_action (ar_recommendation r) = ''buy'') \<and>
           (growth \<and> \<not> margin \<longrightarrow> rec_action (ar_recommendation r) = ''hold'') \<and>
           (\<not> growth \<longrightarrow> rec_action (ar_recommendation r) = ''sell'')"
    unfolding Let_def g[symmetric] using mock_result_Inr(2)[OF r] by simp
  show "rec_confidence (ar_recommendation r) = 65" using mock_result_Inr(3)[OF r] .
  assume c: "contains txt ''revenue grew 15% with margin improvement''"
  have l: "contains (lower txt) ''revenue grew 15% with margin improvement''"
    using contains_lower[OF c] example_lower by simp
  have "contains (lower txt) ''grew''" "contains (lower txt) ''margin''"
    using contains_trans[OF l example_grew] contains_trans[OF l example_margin] by simp_all
  then show "rec_action (ar_recommendation r) = ''buy''"
    using mock_result_Inr(2)[OF r] by (simp add: growth_keywords_def)
next
  assume "accepts_own_types (python_scalars pd) \<and> typed_hints meta"
  then show "\<exists>r'. mock_result pd txt meta = Inr r'" using mock_result_returns by blast
qed

theorem mock_result_decision_table_witness:
  "\<exists>r. mock_result (pydantic_with (\<lambda>s. None)) ''Q2 report: revenue grew 15% with margin improvement.''
          [(''company'', JNull), (''source'', JStr ''data/report.pdf''), (''pages'', JInt 2)] = Inr r \<and>
       rec_action (ar_recommendation r) = ''buy'' \<and> rec_confidence (ar_recommendation r) = 65"
proof -
  let ?pd = "pydantic_with (\<lambda>s. None)"
  let ?txt = "''Q2 report: revenue grew 15% with margin improvement.''"
  let ?meta = "[(''company'', JNull), (''source'', JStr ''data/report.pdf''), (''pages'', JInt 2)]"
  have a: "accepts_own_types (python_scalars ?pd)"
    by (simp add: pydantic_with_def strict_accepts_own_types)
  have h: "typed_hints ?meta"
    by (simp add: typed_hints_def dict_get_def str_or_none_def int_or_none_def)
  obtain r where r: "mock_result ?pd ?txt ?meta = Inr r"
    using mock_result_decision_table[of ?pd ?txt ?meta] a h by blast
  have c: "contains ?txt ''revenue grew 15% with margin improvement''" by code_simp
  show ?thesis using mock_result_decision_table[of ?pd ?txt ?meta r] r c by auto
qed

text \<open>
  C10. The mock result never leaves \<open>metadata.company\<close>, \<open>metadata.quarter\<close> or
  \<open>metadata.source\<close> null: a hint that is absent (or \<open>None\<close>, or empty) is replaced by
  "UnknownCo", "Q?" and "uploaded.pdf"; the result has exactly one risk item, exactly one
  insight item and no quotes. The mock returns a result whenever the hints are strings,
  integers or \<open>None\<close> as their fields declare.
\<close>

theorem mock_result_defaults:
  "(mock_result pd txt meta = Inr r \<longrightarrow>
      md_company (ar_metadata r) \<noteq> None \<and>
      md_quarter (ar_metadata r) \<noteq> None \<and>
      md_source (ar_metadata r) \<noteq> None \<and>
      length (ar_risks r) = 1 \<and> length (ar_insights r) = 1 \<and> ar_quotes r = [] \<and>
      (accepts_own_types (python_scalars pd) \<longrightarrow>
         (\<not> truthy (dict_get meta ''company'') \<longrightarrow> md_company (ar_metadata r) = Some ''UnknownCo'') \<and>
         (\<not> truthy (dict_get meta ''quarter'') \<longrightarrow> md_quarter (ar_metadata r) = Some ''Q?'') \<and>
         (\<not> truthy (dict_get meta ''source'') \<longrightarrow> md_source (ar_metadata r) = Some ''uploaded.pdf''))) \<and>
   (accepts_own_types (python_scalars pd) \<and> typed_hints meta \<longrightarrow>
      (\<exists>r'. mock_result pd txt meta = Inr r'))"
proof (intro conjI impI)
  assume r: "mock_result pd txt meta = Inr r"
  show "md_company (ar_metadata r) \<noteq> None" "md_quarter (ar_metadata r) \<noteq> None"
    "md_source (ar_metadata r) \<noteq> None"
    using mock_result_defaulted(4-6)[OF r] by simp_all
  show "length (ar_risks r) = 1" "length (ar_insights r) = 1" "ar_quotes r = []"
    using mock_result_Inr(4-6)[OF r] by simp_all
  assume a: "accepts_own_types (python_scalars pd)"
  {
    assume "\<not> truthy (dict_get meta ''company'')"
    then show "md_company (ar_metadata r) = Some ''UnknownCo''"
      using mock_result_defaulted(1)[OF r] a by (simp add: py_or_def accepts_own_types_def)
  }
  {
    assume "\<not> truthy (dict_get meta ''quarter'')"
    then show "md_quarter (ar_metadata r) = Some ''Q?''"
      using mock_result_defaulted(2)[OF r] a by (simp add: py_or_def accepts_own_types_def)
  }
  {
    assume "\<not> truthy (dict_get meta ''source'')"
    then show "md_source (ar_metadata r) = Some ''uploaded.pdf''"
      using mock_result_defaulted(3)[OF r] a by (simp add: py_or_def accepts_own_types_def)
  }
next
  assume "accepts_own_types (python_scalars pd) \<and> typed_hints meta"
  then show "\<exists>r'. mock_result pd txt meta = Inr r'" using mock_result_returns by blast
qed

theorem mock_result_defaults_witness:
  "\<exists>r. mock_result (pydantic_with (\<lambda>s. None)) ''Costs were flat.'' [(''year'', JInt 2025)] = Inr r \<and>
       md_company (ar_metadata r) = Some ''UnknownCo'' \<and>
       md_quarter (ar_metadata r) = Some ''Q?'' \<and>
       md_source (ar_metadata r) = Some ''uploaded.pdf'' \<and>
       length (ar_risks r) = 1 \<and> length (ar_insights r) = 1 \<and> ar_quotes r = []"
proof -
  let ?pd = "pydantic_with (\<lambda>s. None)"
  let ?meta = "[(''year'', JInt 2025)]"
  have a: "accepts_own_types (python_scalars ?pd)"
    by (simp add: pydantic_with_def strict_accepts_own_types)
  have h: "typed_hints ?meta"
    by (simp add: typed_hints_def dict_get_def str_or_none_def int_or_none_def)
  obtain r where r: "mock_result ?pd ''Costs were flat.'' ?meta = Inr r"
    using mock_result_defaults[of ?pd "''Costs were flat.''" ?meta] a h by blast
  have f: "\<not> truthy (dict_get ?meta ''company'')" "\<not> truthy (dict_get ?meta ''quarter'')"
    "\<not> truthy (dict_get ?meta ''source'')"
    by (simp_all add: dict_get_def)
  show ?thesis using mock_result_defaults[of ?pd "''Costs were flat.''" ?meta r] r a f by auto
qed

section \<open>Validation and the live engine\<close>

lemma llm_live_failed_call:
  assumes "getenv env ''MOCK_LLM'' ''0'' \<noteq> ''1''" "client_init ai = None"
    "completion ai (getenv env ''OPENAI_MODEL'' ''gpt-4o-mini'')
       (if length txt < 180000 then txt else take 180000 txt) meta = Inl e"
  shows "llm_analyze_financials pd env ai txt meta =
           Inl (Exn ''RuntimeError'' (''Model call failed: '' @ exn_str e))"
  using assms by (simp add: llm_analyze_financials_def model_attempt_def Let_def)


lemma llm_mock_mode:
  assumes "getenv env ''MOCK_LLM'' ''0'' = ''1''"
  shows "llm_analyze_financials pd env ai txt meta = mock_result pd txt meta"
  using assms by (simp add: llm_analyze_financials_def)

lemma key_required_Inr:
  "key_required d loc k p = Inr x \<longleftrightarrow> (\<exists>v. map_of d k = Some v \<and> p (loc @ [Key k]) v = Inr x)"
  by (auto simp: key_required_def split: option.splits)


lemma optional_null: "optional p loc JNull = Inr None"
  by (simp add: optional_def)




lemma validate_DocumentMetadata_Inr:
  "validate_DocumentMetadata sc loc (JObj d) = Inr m \<longleftrightarrow>
     (key_default_none d loc ''company'' (optional (sc_str sc)) = Inr (md_company m) \<and>
      key_default_none d loc ''quarter'' (optional (sc_str sc)) = Inr (md_quarter m) \<and>
      key_default_none d loc ''year'' (optional (sc_int sc)) = Inr (md_year m) \<and>
      key_default_none d loc ''source'' (optional (sc_str sc)) = Inr (md_source m) \<and>
      key_default_none d loc ''pages'' (optional (sc_int sc)) = Inr (md_pages m))"
  by (cases m) (auto simp: validate_DocumentMetadata_def ap_Inr_iff)

lemma validate_AnalysisResult_Inr:
  "validate_AnalysisResult sc v = Inr r \<longleftrightarrow>
     (\<exists>d. v = JObj d \<and>
        key_required d [] ''metadata'' (validate_DocumentMetadata sc) = Inr (ar_metadata r) \<and>
        key_required d [] ''recommendation'' (validate_Recommendation sc) = Inr (ar_recommendation r) \<and>
        key_required d [] ''risks'' (list_of (validate_RiskItem sc)) = Inr (ar_risks r) \<and>
        key_required d [] ''insights'' (list_of (validate_MarketInsight sc)) = Inr (ar_insights r) \<and>
        key_default_none d [] ''key_metrics'' (optional_Metrics sc) = Inr (ar_key_metrics r) \<and>
        key_required d [] ''quotes'' (list_of (required (sc_str sc))) = Inr (ar_quotes r) \<and>
        key_required d [] ''limitations'' (required (sc_str sc)) = Inr (ar_limitations r))"
  by (cases r; cases v) (auto simp: validate_AnalysisResult_def ap_Inr_iff)

lemma map_of_filter_key:
  "map_of (filter (\<lambda>kv. fst kv \<noteq> k) d) k' = (if k' = k then None else map_of d k')"
  by (induction d) auto

lemma key_default_none_drop:
  "key_default_none (filter (\<lambda>kv. fst kv \<noteq> k) d) loc k' p =
     (if k' = k then Inr None else key_default_none d loc k' p)"
  by (simp add: key_default_none_def map_of_filter_key)

lemma key_default_none_null:
  "key_default_none ((k, JNull) # d) loc k' (optional p) =
     (if k' = k then Inr None else key_default_none d loc k' (optional p))"
  by (simp add: key_default_none_def optional_null)

lemma key_required_shadow:
  "key_required ((k, v) # d) loc k' p =
     (if k' = k then p (loc @ [Key k]) v else key_required d loc k' p)"
  by (simp add: key_required_def)

lemma key_default_none_shadow:
  "key_default_none ((k, v) # d) loc k' p =
     (if k' = k then p (loc @ [Key k]) v else key_default_none d loc k' p)"
  by (simp add: key_default_none_def)

lemma metadata_drop_source:
  assumes "validate_DocumentMetadata sc loc (JObj d) = Inr m"
  shows "validate_DocumentMetadata sc loc (JObj (filter (\<lambda>kv. fst kv \<noteq> ''source'') d))
           = Inr (m\<lparr>md_source := None\<rparr>)"
    and "validate_DocumentMetadata sc loc (JObj ((''source'', JNull) # d))
           = Inr (m\<lparr>md_source := None\<rparr>)"
  using assms
  by (simp_all add: validate_DocumentMetadata_Inr key_default_none_drop key_default_none_null)

lemmas validation_defs =
  validate_AnalysisResult_def validate_DocumentMetadata_def validate_Recommendation_def
  validate_RiskItem_def validate_MarketInsight_def validate_Metrics_def optional_Metrics_def
  key_required_def key_default_none_def required_def optional_def literal_of_def conint_def
  list_of_def ap_def errs_def

lemma candidate_validates:
  "validate_AnalysisResult strict_scalars (candidate [(''company'', JStr ''SampleCo'')] ''buy'' 70) =
     Inr \<lparr>ar_metadata = \<lparr>md_company = Some ''SampleCo'', md_quarter = None, md_year = None,
                          md_source = None, md_pages = None\<rparr>,
          ar_recommendation = \<lparr>rec_action = ''buy'', rec_rationale = ''Growth.'', rec_confidence = 70\<rparr>,
          ar_risks = [], ar_insights = [], ar_key_metrics = None, ar_quotes = [],
          ar_limitations = ''Excerpt only.''\<rparr>"
  by (simp add: candidate_def validation_defs strict_scalars_def)




lemma decode_examples_eval:
  "decode_examples (candidate_text ''\"company\":\"SampleCo\"'' ''buy'' ''70'') =
     Some (candidate [(''company'', JStr ''SampleCo'')] ''buy'' 70)"
  "decode_examples (candidate_text [] ''buy'' ''101'') = Some (candidate [] ''buy'' 101)"
  "decode_examples (candidate_text [] ''strong_buy'' ''70'') = Some (candidate [] ''strong_buy'' 70)"
  by (simp_all add: decode_examples_def candidate_text_def)

text \<open>
  C2. The handler of the model call holds a fallback to the mock result, for when the
  mock is allowed. Its test is the test of the function's first line, which has already
  returned the mock result whenever it holds, so the fallback never runs. With
  \<open>MOCK_LLM\<close> unset, a model call that times out ends in
  \<open>RuntimeError("Model call failed: Request timed out.")\<close>; with \<open>MOCK_LLM\<close> set to "1"
  the mock result is returned without any model call; and in no configuration does a
  failed model call end in a result.
\<close>

theorem fallback_to_mock_unreachable:
  "llm_analyze_financials (pydantic_with decode_examples) Map.empty
      (failing (Exn ''APITimeoutError'' ''Request timed out.'')) ''Revenue grew.'' []
     = Inl (Exn ''RuntimeError'' ''Model call failed: Request timed out.'') \<and>
   llm_analyze_financials (pydantic_with decode_examples) [''MOCK_LLM'' \<mapsto> ''1'']
      (failing (Exn ''APITimeoutError'' ''Request timed out.'')) ''Revenue grew.'' []
     = mock_result (pydantic_with decode_examples) ''Revenue grew.'' [] \<and>
   \<not> (\<exists>pd env ai txt meta e r.
        getenv env ''MOCK_LLM'' ''0'' \<noteq> ''1'' \<and> client_init ai = None \<and>
        completion ai (getenv env ''OPENAI_MODEL'' ''gpt-4o-mini'')
          (if length txt < 180000 then txt else take 180000 txt) meta = Inl e \<and>
        llm_analyze_financials pd env ai txt meta = Inr r)"
proof (intro conjI)
  let ?ai = "failing (Exn ''APITimeoutError'' ''Request timed out.'')"
  have live: "getenv Map.empty ''MOCK_LLM'' ''0'' \<noteq> ''1''" by (simp add: getenv_def)
  have mock: "getenv [''MOCK_LLM'' \<mapsto> ''1''] ''MOCK_LLM'' ''0'' = ''1''" by (simp add: getenv_def)
  show "llm_analyze_financials (pydantic_with decode_examples) Map.empty ?ai ''Revenue grew.'' []
          = Inl (Exn ''RuntimeError'' ''Model call failed: Request timed out.'')"
    using llm_live_failed_call[OF live, of ?ai "''Revenue grew.''" "[]"
        "Exn ''APITimeoutError'' ''Request timed out.''"]
    by (simp add: failing_def)
  show "llm_analyze_financials (pydantic_with decode_examples) [''MOCK_LLM'' \<mapsto> ''1''] ?ai
          ''Revenue grew.'' []
          = mock_result (pydantic_with decode_examples) ''Revenue grew.'' []"
    using llm_mock_mode[OF mock] .
  show "\<not> (\<exists>pd env ai txt meta e r.
        getenv env ''MOCK_LLM'' ''0'' \<noteq> ''1'' \<and> client_init ai = None \<and>
        completion ai (getenv env ''OPENAI_MODEL'' ''gpt-4o-mini'')
          (if length txt < 180000 then txt else take 180000 txt) meta = Inl e \<and>
        llm_analyze_financials pd env ai txt meta = Inr r)"
    using llm_live_failed_call by fastforce
qed




text \<open>
  C6, as stated, fails: \<open>source\<close> is declared \<open>Optional[str] = None\<close> like its four
  neighbours, so a response whose metadata holds a company and no source validates,
  with \<open>source\<close> null.
\<close>

theorem metadata_without_source_validates:
  "model_validate_json (pydantic_with decode_examples)
      (candidate_text ''\"company\":\"SampleCo\"'' ''buy'' ''70'') =
     Inr \<lparr>ar_metadata = \<lparr>md_company = Some ''SampleCo'', md_quarter = None, md_year = None,
                          md_source = None, md_pages = None\<rparr>,
          ar_recommendation = \<lparr>rec_action = ''buy'', rec_rationale = ''Growth.'', rec_confidence = 70\<rparr>,
          ar_risks = [], ar_insights = [], ar_key_metrics = None, ar_quotes = [],
          ar_limitations = ''Excerpt only.''\<rparr>"
  by (simp add: model_validate_json_def pydantic_with_def decode_examples_eval candidate_validates)

text \<open>
  C6, amended. All five metadata fields, \<open>source\<close> included, may be absent or null:
  metadata with no key at all, and with all five keys null, validates to five nulls;
  from any metadata that validates, the \<open>source\<close> key can be dropped or set to null and
  it still validates, with \<open>source\<close> null; and so does the whole candidate around it.
\<close>

theorem metadata_fields_all_optional:
  "validate_DocumentMetadata sc loc (JObj []) =
     Inr \<lparr>md_company = None, md_quarter = None, md_year = None, md_source = None, md_pages = None\<rparr> \<and>
   validate_DocumentMetadata sc loc
       (JObj [(''company'', JNull), (''quarter'', JNull), (''year'', JNull), (''source'', JNull),
              (''pages'', JNull)]) =
     Inr \<lparr>md_company = None, md_quarter = None, md_year = None, md_source = None, md_pages = None\<rparr> \<and>
   (\<forall>d m. validate_DocumentMetadata sc loc (JObj d) = Inr m \<longrightarrow>
      validate_DocumentMetadata sc loc (JObj (filter (\<lambda>kv. fst kv \<noteq> ''source'') d))
        = Inr (m\<lparr>md_source := None\<rparr>) \<and>
      validate_DocumentMetadata sc loc (JObj ((''source'', JNull) # d))
        = Inr (m\<lparr>md_source := None\<rparr>)) \<and>
   (\<forall>d md r. validate_AnalysisResult sc (JObj d) = Inr r \<and> map_of d ''metadata'' = Some (JObj md) \<longrightarrow>
      validate_AnalysisResult sc
          (JObj ((''metadata'', JObj (filter (\<lambda>kv. fst kv \<noteq> ''source'') md)) # d))
        = Inr (r\<lparr>ar_metadata := (ar_metadata r)\<lparr>md_source := None\<rparr>\<rparr>))"
proof (intro conjI allI impI)
  show "validate_DocumentMetadata sc loc (JObj []) =
     Inr \<lparr>md_company = None, md_quarter = None, md_year = None, md_source = None, md_pages = None\<rparr>"
    by (simp add: validate_DocumentMetadata_Inr key_default_none_def)
  show "validate_DocumentMetadata sc loc
       (JObj [(''company'', JNull), (''quarter'', JNull), (''year'', JNull), (''source'', JNull),
              (''pages'', JNull)]) =
     Inr \<lparr>md_company = None, md_quarter = None, md_year = None, md_source = None, md_pages = None\<rparr>"
    by (simp add: validate_DocumentMetadata_Inr key_default_none_def optional_null)
next
  fix d m
  assume v: "validate_DocumentMetadata sc loc (JObj d) = Inr m"
  show "validate_DocumentMetadata sc loc (JObj (filter (\<lambda>kv. fst kv \<noteq> ''source'') d))
        = Inr (m\<lparr>md_source := None\<rparr>)"
    using metadata_drop_source(1)[OF v] .
  show "validate_DocumentMetadata sc loc (JObj ((''source'', JNull) # d)) = Inr (m\<lparr>md_source := None\<rparr>)"
    using metadata_drop_source(2)[OF v] .
next
  fix d md r
  assume a: "validate_AnalysisResult sc (JObj d) = Inr r \<and> map_of d ''metadata'' = Some (JObj md)"
  then have m: "validate_DocumentMetadata sc [Key ''metadata''] (JObj md) = Inr (ar_metadata r)"
    by (auto simp: validate_AnalysisResult_Inr key_required_Inr)
  show "validate_AnalysisResult sc
          (JObj ((''metadata'', JObj (filter (\<lambda>kv. fst kv \<noteq> ''source'') md)) # d))
        = Inr (r\<lparr>ar_metadata := (ar_metadata r)\<lparr>md_source := None\<rparr>\<rparr>)"
    using a metadata_drop_source(1)[OF m]
    by (simp add: validate_AnalysisResult_Inr key_required_shadow key_default_none_shadow)
qed

theorem metadata_fields_all_optional_witness:
  "validate_DocumentMetadata strict_scalars []
      (JObj [(''company'', JStr ''SampleCo''), (''source'', JStr ''mock.pdf'')]) =
     Inr \<lparr>md_company = Some ''SampleCo'', md_quarter = None, md_year = None,
          md_source = Some ''mock.pdf'', md_pages = None\<rparr> \<and>
   validate_DocumentMetadata strict_scalars [] (JObj [(''company'', JStr ''SampleCo'')]) =
     Inr \<lparr>md_company = Some ''SampleCo'', md_quarter = None, md_year = None,
          md_source = None, md_pages = None\<rparr>"
proof -
  let ?m = "\<lparr>md_company = Some ''SampleCo'', md_quarter = None, md_year = None,
          md_source = Some ''mock.pdf'', md_pages = None\<rparr>"
  have v: "validate_DocumentMetadata strict_scalars []
      (JObj [(''company'', JStr ''SampleCo''), (''source'', JStr ''mock.pdf'')]) = Inr ?m"
    by (simp add: validation_defs strict_scalars_def)
  show ?thesis
    using metadata_fields_all_optional[of strict_scalars "[]"] v by fastforce
qed

section \<open>Extraction of the JSON object: the loop against its specification\<close>

lemma find_upt_step:
  "List.find P [i..<n] = (if i < n then (if P i then Some i else List.find P [Suc i..<n]) else None)"
  by (simp add: upt_rec[of i n])

lemma find_upt_skip:
  "i \<le> j \<Longrightarrow> \<forall>k. i \<le> k \<and> k < j \<longrightarrow> \<not> P k \<Longrightarrow> List.find P [i..<n] = List.find P [j..<n]"
proof (induction "j - i" arbitrary: i)
  case 0
  then show ?case by simp
next
  case (Suc d)
  then have "i < j" by simp
  show ?case
  proof (cases "i < n")
    case True
    have "\<not> P i" using Suc.prems \<open>i < j\<close> by simp
    moreover have "List.find P [Suc i..<n] = List.find P [j..<n]"
      using Suc.hyps(1)[of "Suc i"] Suc.hyps(2) Suc.prems \<open>i < j\<close> by simp
    ultimately show ?thesis using True by (simp add: find_upt_step[of P i n])
  next
    case False
    then show ?thesis using \<open>i < j\<close> by simp
  qed
qed

lemma slice_snoc:
  assumes "start \<le> i" "i < length s"
  shows "slice s start (i + 1) = slice s start i @ [s ! i]"
proof -
  have "take (Suc (i - start)) (drop start s) =
        take (i - start) (drop start s) @ [drop start s ! (i - start)]"
    using assms by (simp add: take_Suc_conv_app_nth)
  moreover have "Suc i - start = Suc (i - start)" using assms by simp
  ultimately show ?thesis using assms by (simp add: slice_def)
qed

lemma scan_state_snoc:
  "start \<le> i \<Longrightarrow> i < length s \<Longrightarrow>
   scan_state (slice s start (i + 1)) = scan_step (scan_state (slice s start i)) (s ! i)"
  using slice_snoc[of start i s] by (simp add: scan_state_def)

lemma strip_while_id:
  assumes "x \<noteq> []" "\<not> p (hd x)" "\<not> p (last x)"
  shows "strip_while p x = x"
proof -
  have 1: "dropWhile p x = x" using assms by (cases x) auto
  have "rev x \<noteq> []" "\<not> p (hd (rev x))" using assms by (auto simp: hd_rev)
  then have 2: "dropWhile p (rev x) = rev x" by (cases "rev x") auto
  show ?thesis by (simp add: strip_while_def 1 2)
qed

lemma braces_not_space: "\<not> isspace CHR ''{''" "\<not> isspace CHR ''}''"
  by (simp_all add: isspace_def)

text \<open>The three strips applied to the slice that is returned change nothing: it opens
  with a brace and closes with one.\<close>

lemma final_strip_id:
  assumes "x \<noteq> []" "hd x = CHR ''{''" "last x = CHR ''}''"
  shows "strip (strip_chars ''`'' (strip x)) = x"
proof -
  have 1: "strip x = x"
    unfolding strip_def using assms braces_not_space by (intro strip_while_id) auto
  have 2: "strip_chars ''`'' x = x"
    unfolding strip_chars_def using assms by (intro strip_while_id) auto
  show ?thesis by (simp add: 1 2)
qed

lemma scan_from_end: "\<not> i < length s \<Longrightarrow> scan_from s start i depth in_str esc = s"
  by (subst scan_from.simps) simp

lemma scan_from_ret:
  "i < length s \<Longrightarrow> \<not> in_str \<Longrightarrow> s ! i = CHR ''}'' \<Longrightarrow> depth - 1 = 0 \<Longrightarrow>
   scan_from s start i depth in_str esc = strip (strip_chars ''`'' (strip (slice s start (i + 1))))"
  by (subst scan_from.simps) simp

lemma scan_from_step:
  "i < length s \<Longrightarrow> \<not> (\<not> in_str \<and> s ! i = CHR ''}'' \<and> depth - 1 = 0) \<Longrightarrow>
   scan_step (depth, in_str, esc) (s ! i) = (d', ins', esc') \<Longrightarrow>
   scan_from s start i depth in_str esc = scan_from s start (i + 1) d' ins' esc'"
  by (subst scan_from.simps) (auto simp: Let_def split: if_splits)

text \<open>
  The loop, entered at index \<open>i\<close> in the state the scanner has reached there, with no
  earlier position at depth zero and a positive depth (or standing on the first brace):
  it returns the slice up to the first position at depth zero, and the whole string when
  there is none.
\<close>

lemma scan_from_find:
  assumes "start < length s" "s ! start = CHR ''{''"
  shows "start \<le> i \<Longrightarrow> i \<le> length s \<Longrightarrow>
    (depth, in_str, esc) = scan_state (slice s start i) \<Longrightarrow>
    \<forall>k. start \<le> k \<and> k < i \<longrightarrow> \<not> depth_zero_at s start k \<Longrightarrow>
    1 \<le> depth \<or> (depth = 0 \<and> \<not> in_str \<and> i < length s \<and> s ! i = CHR ''{'') \<Longrightarrow>
    scan_from s start i depth in_str esc =
     (case matching_close s start of None \<Rightarrow> s | Some j \<Rightarrow> slice s start (j + 1))"
proof (induction "length s - i" arbitrary: i depth in_str esc)
  case 0
  then have "\<not> i < length s" by simp
  moreover have "matching_close s start = List.find (depth_zero_at s start) [i..<length s]"
    unfolding matching_close_def
    using find_upt_skip[of start i "depth_zero_at s start" "length s"] "0.prems" by blast
  ultimately show ?case by (simp add: scan_from_end)
next
  case (Suc n)
  then have lt: "i < length s" by simp
  have skip: "matching_close s start = List.find (depth_zero_at s start) [i..<length s]"
    unfolding matching_close_def
    using find_upt_skip[of start i "depth_zero_at s start" "length s"] Suc.prems by blast
  have st: "scan_state (slice s start (i + 1)) = scan_step (depth, in_str, esc) (s ! i)"
    using scan_state_snoc[of start i s] Suc.prems lt by simp
  define st' where "st' = scan_step (depth, in_str, esc) (s ! i)"
  obtain d' ins' esc' where st'_eq: "st' = (d', ins', esc')" by (cases st') auto
  have zero_iff: "depth_zero_at s start i \<longleftrightarrow> d' = 0"
    using st st'_eq by (simp add: depth_zero_at_def st'_def)
  show ?case
  proof (cases "\<not> in_str \<and> s ! i = CHR ''}'' \<and> depth - 1 = 0")
    case True
    note ret = this
    have "d' = 0" using ret st'_eq by (auto simp: st'_def)
    then have f: "matching_close s start = Some i"
      using skip lt zero_iff by (simp add: find_upt_step[of _ i])
    have ne: "slice s start (i + 1) \<noteq> []"
      using Suc.prems assms lt by (simp add: slice_def)
    have h: "hd (slice s start (i + 1)) = CHR ''{''"
      using Suc.prems assms lt by (simp add: slice_def hd_drop_conv_nth)
    have l: "last (slice s start (i + 1)) = CHR ''}''"
      using slice_snoc[of start i s] Suc.prems lt ret by simp
    have "scan_from s start i depth in_str esc =
          strip (strip_chars ''`'' (strip (slice s start (i + 1))))"
      using ret lt by (simp add: scan_from_ret)
    then show ?thesis using f final_strip_id[OF ne h l] by simp
  next
    case False
    note cont = this
    have d'_pos: "1 \<le> d'"
      using cont Suc.prems(5) st'_eq by (auto simp: st'_def split: if_splits)
    then have nz: "\<not> depth_zero_at s start i" using zero_iff by simp
    have prem4: "\<forall>k. start \<le> k \<and> k < i + 1 \<longrightarrow> \<not> depth_zero_at s start k"
      using Suc.prems(4) nz by (auto simp: less_Suc_eq)
    have prem3: "(d', ins', esc') = scan_state (slice s start (i + 1))"
      using st st'_eq by (simp add: st'_def)
    have step: "scan_from s start i depth in_str esc = scan_from s start (i + 1) d' ins' esc'"
      using scan_from_step[OF lt cont] st'_eq by (simp add: st'_def)
    have "n = length s - (i + 1)" using Suc.hyps(2) by simp
    then have "scan_from s start (i + 1) d' ins' esc' =
      (case matching_close s start of None \<Rightarrow> s | Some j \<Rightarrow> slice s start (j + 1))"
      using Suc.hyps(1)[of "i + 1" d' ins' esc'] Suc.prems(1) lt prem3 prem4 d'_pos by simp
    then show ?thesis using step by simp
  qed
qed

lemma first_brace_facts:
  assumes "CHR ''{'' \<in> set s"
  shows "first_brace s < length s" "s ! first_brace s = CHR ''{''"
proof -
  show 1: "first_brace s < length s"
    unfolding first_brace_def using assms by (induction s) auto
  show "s ! first_brace s = CHR ''{''"
    using nth_length_takeWhile[of "\<lambda>x. x \<noteq> CHR ''{''" s] 1
    by (simp add: first_brace_def)
qed

lemma extract_json_str_refines: "extract_json_str s0 = extract_json_spec s0"
proof -
  let ?s = "unfence (strip s0)"
  let ?b = "first_brace ?s"
  show ?thesis
  proof (cases "CHR ''{'' \<in> set ?s")
    case False
    then show ?thesis
      by (simp add: extract_json_str_def extract_json_spec_def unfence_def str_find_def Let_def)
  next
    case True
    note fb = first_brace_facts[OF True]
    have "scan_from ?s ?b ?b 0 False False =
      (case matching_close ?s ?b of None \<Rightarrow> ?s | Some j \<Rightarrow> slice ?s ?b (j + 1))"
    proof (rule scan_from_find[OF fb])
      show "?b \<le> ?b" by simp
      show "?b \<le> length ?s" using fb by simp
      show "(0, False, False) = scan_state (slice ?s ?b ?b)"
        by (simp add: slice_def scan_state_def)
      show "\<forall>k. ?b \<le> k \<and> k < ?b \<longrightarrow> \<not> depth_zero_at ?s ?b k" using leD by blast
      show "1 \<le> (0::int) \<or> ((0::int) = 0 \<and> \<not> False \<and> ?b < length ?s \<and> ?s ! ?b = CHR ''{'')"
        using fb by simp
    qed
    moreover have "extract_json_str s0 = scan_from ?s ?b ?b 0 False False"
      using True
      by (simp add: extract_json_str_def unfence_def str_find_def Let_def first_brace_def)
    moreover have "extract_json_spec s0 =
      (case matching_close ?s ?b of None \<Rightarrow> ?s | Some j \<Rightarrow> slice ?s ?b (j + 1))"
      using True by (simp add: extract_json_spec_def Let_def)
    ultimately show ?thesis by simp
  qed
qed

lemma extract_json_str_example:
  "extract_json_str ''Here is the result: ```json\<newline>{\"a\":1, \"b\":{\"c\":2}}\<newline>```''
     = ''{\"a\":1, \"b\":{\"c\":2}}''"
  by code_simp

text \<open>
  C7. For every input string, \<open>_extract_json_str\<close> computes what the specification
  words: the input is trimmed and, when it opens with a triple-backtick fence, the
  backticks at both ends are dropped and it is trimmed again; when this string holds no
  opening brace it is returned as it is; otherwise the characters are walked from the
  first opening brace, tracking the string-literal state (a backslash inside a literal
  escapes the next character) and the brace depth, and the result is the substring from
  the first opening brace to the first position at which the depth is back at zero (the
  prepared string itself when the depth never returns to zero). In particular the fenced
  example of the specification extracts exactly the object.
\<close>

theorem extract_json_str_balanced_object:
  "(\<forall>s. extract_json_str s = extract_json_spec s) \<and>
   extract_json_str ''Here is the result: ```json\<newline>{\"a\":1, \"b\":{\"c\":2}}\<newline>```''
     = ''{\"a\":1, \"b\":{\"c\":2}}''"
  using extract_json_str_refines extract_json_str_example by blast

section \<open>The job store and the task\<close>

lemma find_map_update:
  "List.find (\<lambda>j. job_id j = jid) (map (\<lambda>j. if job_id j = jid then j\<lparr>job_status := st, job_error := err\<rparr> else j) js)
   = map_option (\<lambda>j. j\<lparr>job_status := st, job_error := err\<rparr>) (List.find (\<lambda>j. job_id j = jid) js)"
  by (induction js) auto

lemma get_job_set_job_outcome:
  "get_job (set_job_outcome jid st err v) jid =
     map_option (\<lambda>j. j\<lparr>job_status := st, job_error := err\<rparr>) (get_job v jid)"
  by (simp add: get_job_def set_job_outcome_def find_map_update)

lemma get_job_add_analysis: "get_job (add_analysis a v) jid = get_job v jid"
  by (simp add: get_job_def add_analysis_def)

lemma job_ids_set_job_outcome:
  "map job_id (jobs (set_job_outcome jid st err v)) = map job_id (jobs v)"
  by (simp add: set_job_outcome_def comp_def)

lemma analyses_set_job_outcome: "analyses (set_job_outcome jid st err v) = analyses v"
  by (simp add: set_job_outcome_def)

lemma constraints_set_job_outcome:
  "constraints_ok (set_job_outcome jid st err v) = constraints_ok v"
  unfolding constraints_ok_def job_ids_set_job_outcome analyses_set_job_outcome ..

lemma constraints_add_analysis:
  "constraints_ok (add_analysis a v) \<longleftrightarrow>
     constraints_ok v \<and> an_id a \<notin> an_id ` set (analyses v) \<and> an_job_id a \<notin> an_job_id ` set (analyses v)"
  by (auto simp: constraints_ok_def add_analysis_def)

lemma build_analysis_Inr:
  assumes "build_analysis dumps uuid jid result = Inr a"
  shows "an_id a = uuid" "an_job_id a = jid" "an_result_json a = dumps (JObj result)"
    "sub_get result ''metadata'' ''company'' = Inr (an_company a)"
    "sub_get result ''metadata'' ''quarter'' = Inr (an_quarter a)"
    "sub_get result ''metadata'' ''year'' = Inr (an_year a)"
    "sub_get result ''recommendation'' ''action'' = Inr (an_recommendation_action a)"
    "sub_get result ''recommendation'' ''confidence'' = Inr (an_confidence a)"
    "sub_get result ''metadata'' ''pages'' = Inr (an_pages a)"
  using assms by (auto simp: build_analysis_def split: sum.splits)

lemma session_scope_cases:
  "session_scope faults db body =
     (case snd (body db) of
        Inl e \<Rightarrow> (db, Inl e)
      | Inr v \<Rightarrow>
          (case commit_fault faults of
             Some e \<Rightarrow> (db, Inl e)
           | None \<Rightarrow>
               (if constraints_ok (fst (body db)) then (fst (body db), Inr v)
                else (db, Inl (Exn ''IntegrityError'' ''UNIQUE constraint failed'')))))"
  by (cases "body db") (auto simp: session_scope_def commit_def split: sum.splits option.splits)

lemma build_analysis_model_dump:
  "build_analysis dumps uuid jid (model_dump r) = Inr
     \<lparr>an_id = uuid, an_job_id = jid, an_result_json = dumps (JObj (model_dump r)),
      an_company = dump_opt JStr (md_company (ar_metadata r)),
      an_quarter = dump_opt JStr (md_quarter (ar_metadata r)),
      an_year = dump_opt JInt (md_year (ar_metadata r)),
      an_recommendation_action = JStr (rec_action (ar_recommendation r)),
      an_confidence = JInt (rec_confidence (ar_recommendation r)),
      an_pages = dump_opt JInt (md_pages (ar_metadata r))\<rparr>"
  by (simp add: build_analysis_def sub_get_def model_dump_def dict_get_def py_or_def obj_get_def
      dump_DocumentMetadata_def dump_Recommendation_def)

lemma distinct_filter_le_one:
  "distinct (map f xs) \<Longrightarrow> length (filter (\<lambda>a. f a = k) xs) \<le> 1"
proof (induction xs)
  case Nil
  then show ?case by simp
next
  case (Cons x xs)
  show ?case
  proof (cases "f x = k")
    case True
    then have "filter (\<lambda>a. f a = k) xs = []"
      using Cons.prems by (auto simp: filter_empty_conv image_iff)
    then show ?thesis using True by simp
  next
    case False
    then show ?thesis using Cons by simp
  qed
qed

lemma process_pdf_job_get_fault:
  assumes "get_fault faults = Some e"
  shows "process_pdf_job faults dumps uuid run db jid fp q = (db, Inl e)"
  using assms by (simp add: process_pdf_job_def session_scope_cases process_pdf_job_body_def)

lemma process_pdf_job_commit_fault:
  assumes "get_fault faults = None" "commit_fault faults = Some e"
  shows "process_pdf_job faults dumps uuid run db jid fp q = (db, Inl e)"
  using assms
  by (simp add: process_pdf_job_def session_scope_cases process_pdf_job_body_def
      split: option.splits sum.splits)

lemma process_pdf_job_absent:
  assumes "get_fault faults = None" "commit_fault faults = None"
    "constraints_ok db" "get_job db jid = None"
  shows "process_pdf_job faults dumps uuid run db jid fp q =
           (db, Inr (JObj [(''error'', JStr (''Job '' @ jid @ '' not found''))]))"
  using assms by (simp add: process_pdf_job_def session_scope_cases process_pdf_job_body_def)

lemma process_pdf_job_failure:
  assumes "get_fault faults = None" "commit_fault faults = None"
    "constraints_ok db" "get_job db jid = Some j"
    "analysis_attempt dumps uuid run jid fp q = Inl e"
  shows "process_pdf_job faults dumps uuid run db jid fp q =
           (set_job_outcome jid ''error'' (Some (exn_str e)) db,
            Inr (JObj [(''error'', JStr (exn_str e))]))"
  using assms
  by (simp add: process_pdf_job_def session_scope_cases process_pdf_job_body_def
      constraints_set_job_outcome)

lemma process_pdf_job_success:
  assumes "get_fault faults = None" "commit_fault faults = None"
    "constraints_ok db" "get_job db jid = Some j"
    "analysis_attempt dumps uuid run jid fp q = Inr a"
  shows "process_pdf_job faults dumps uuid run db jid fp q =
           (if an_id a \<notin> an_id ` set (analyses db) \<and> an_job_id a \<notin> an_job_id ` set (analyses db)
            then (set_job_outcome jid ''done'' None (add_analysis a db),
                  Inr (JObj [(''ok'', JBool True)]))
            else (db, Inl (Exn ''IntegrityError'' ''UNIQUE constraint failed'')))"
  using assms
  by (simp add: process_pdf_job_def session_scope_cases process_pdf_job_body_def
      constraints_set_job_outcome constraints_add_analysis)

lemma analysis_attempt_Inr:
  "analysis_attempt dumps uuid run jid fp q = Inr a \<Longrightarrow> an_id a = uuid \<and> an_job_id a = jid"
  by (auto simp: analysis_attempt_def split: sum.splits dest: build_analysis_Inr(1,2))

lemma example_attempt:
  "analysis_attempt (\<lambda>v. ''{}'') uuid (\<lambda>q f. Inr (model_dump example_result)) jid fp q
     = Inr (example_row uuid jid)"
  by (simp add: analysis_attempt_def build_analysis_model_dump example_result_def example_row_def
      dump_opt_def)

lemma store_errored_facts:
  "constraints_ok store_errored"
  "get_job store_errored ''j1'' = Some (example_job ''j1'' ''error'' (Some ''Model call failed: timeout''))"
  by (simp_all add: store_errored_def constraints_ok_def get_job_def example_job_def)

lemma store_done_facts:
  "constraints_ok store_done"
  "get_job store_done ''j1'' = Some (example_job ''j1'' ''done'' None)"
  "analyses store_done = [example_row ''a1'' ''j1'']"
  by (simp_all add: store_done_def constraints_ok_def get_job_def example_job_def)

lemma no_faults_facts: "get_fault no_faults = None" "commit_fault no_faults = None"
  by (simp_all add: no_faults_def)

lemma process_pdf_job_cases:
  assumes "get_fault faults = None" "commit_fault faults = None"
    "constraints_ok db" "get_job db jid = Some j"
  shows "process_pdf_job faults dumps uuid run db jid fp q =
     (case analysis_attempt dumps uuid run jid fp q of
        Inl e \<Rightarrow> (set_job_outcome jid ''error'' (Some (exn_str e)) db,
                  Inr (JObj [(''error'', JStr (exn_str e))]))
      | Inr a \<Rightarrow>
          (if jid \<in> an_job_id ` set (analyses db) \<or> uuid \<in> an_id ` set (analyses db)
           then (db, Inl (Exn ''IntegrityError'' ''UNIQUE constraint failed''))
           else (set_job_outcome jid ''done'' None (add_analysis a db),
                 Inr (JObj [(''ok'', JBool True)]))))"
proof (cases "analysis_attempt dumps uuid run jid fp q")
  case (Inl e)
  then show ?thesis using process_pdf_job_failure[OF assms Inl] by simp
next
  case (Inr a)
  then show ?thesis
    using process_pdf_job_success[OF assms Inr] analysis_attempt_Inr[OF Inr] by auto
qed

lemma analyses_add_analysis: "analyses (add_analysis a v) = analyses v @ [a]"
  by (simp add: add_analysis_def)

lemma process_pdf_job_constraints:
  assumes "constraints_ok db"
  shows "constraints_ok (fst (process_pdf_job faults dumps uuid run db jid fp q))"
  using assms
  by (auto simp: process_pdf_job_def session_scope_cases split: sum.splits option.splits)

lemma store_pending_facts:
  "constraints_ok store_pending"
  "get_job store_pending ''j1'' = Some (example_job ''j1'' ''pending'' None)"
  "get_job store_pending ''j2'' = None"
  "analyses store_pending = []"
  by (simp_all add: store_pending_def constraints_ok_def get_job_def example_job_def)


text \<open>
  C1, as stated, fails: the task has no guard on the job's status. A job that ended in
  \<open>error\<close> and is run again with an analysis that succeeds ends in \<open>done\<close>; a job that
  ended in \<open>done\<close> and is run again with an analysis that fails ends in \<open>error\<close>.
\<close>

theorem terminal_status_rewritten:
  "map_option job_status (get_job store_errored ''j1'') = Some ''error'' \<and>
   map_option job_status
     (get_job (fst (process_pdf_job no_faults (\<lambda>v. ''{}'') ''a1'' (\<lambda>q f. Inr (model_dump example_result))
                      store_errored ''j1'' ''data/report.pdf'' ''Analyze this document'')) ''j1'')
     = Some ''done'' \<and>
   map_option job_status (get_job store_done ''j1'') = Some ''done'' \<and>
   map_option job_status
     (get_job (fst (process_pdf_job no_faults (\<lambda>v. ''{}'') ''a2''
                      (\<lambda>q f. Inl (Exn ''FileNotFoundError'' ''data/report.pdf''))
                      store_done ''j1'' ''data/report.pdf'' ''Analyze this document'')) ''j1'')
     = Some ''error''"
proof -
  have 1: "process_pdf_job no_faults (\<lambda>v. ''{}'') ''a1'' (\<lambda>q f. Inr (model_dump example_result))
             store_errored ''j1'' ''data/report.pdf'' ''Analyze this document''
           = (set_job_outcome ''j1'' ''done'' None (add_analysis (example_row ''a1'' ''j1'') store_errored),
              Inr (JObj [(''ok'', JBool True)]))"
    using process_pdf_job_success[OF no_faults_facts store_errored_facts example_attempt]
    by (simp add: store_errored_def example_row_def)
  have 2: "process_pdf_job no_faults (\<lambda>v. ''{}'') ''a2''
             (\<lambda>q f. Inl (Exn ''FileNotFoundError'' ''data/report.pdf''))
             store_done ''j1'' ''data/report.pdf'' ''Analyze this document''
           = (set_job_outcome ''j1'' ''error'' (Some ''data/report.pdf'') store_done,
              Inr (JObj [(''error'', JStr ''data/report.pdf'')]))"
    using process_pdf_job_failure[OF no_faults_facts store_done_facts(1,2), of "\<lambda>v. ''{}''" "''a2''"
        "\<lambda>q f. Inl (Exn ''FileNotFoundError'' ''data/report.pdf'')" "''data/report.pdf''"
        "''Analyze this document''" "Exn ''FileNotFoundError'' ''data/report.pdf''"]
    by (simp add: analysis_attempt_def)
  show ?thesis
    unfolding 1 2
    by (simp add: get_job_set_job_outcome get_job_add_analysis store_errored_facts store_done_facts
        example_job_def)
qed

text \<open>
  C1, amended. For a job in a terminal status and a store that satisfies its
  constraints, running the task again never leaves two \<open>analyses\<close> rows for one job id:
  when the analysis succeeds and the job has its row already (or the fresh identifier
  is taken), the commit is refused, the store is unchanged and the task raises. The
  status is not protected: when the analysis succeeds and the job has no row, the row is
  inserted and the status becomes \<open>done\<close>; when the analysis fails, the status becomes
  \<open>error\<close> and the rows stay as they are. (The last three for a database that does not
  fail for reasons of its own.)
\<close>

theorem rerun_keeps_one_analysis:
  "constraints_ok db \<and> get_job db jid = Some j \<and> job_status j \<in> {''done'', ''error''} \<and>
   process_pdf_job faults dumps uuid run db jid fp q = (db', out) \<longrightarrow>
     (\<forall>k. length (filter (\<lambda>a. an_job_id a = k) (analyses db')) \<le> 1) \<and>
     (get_fault faults = None \<and> commit_fault faults = None \<longrightarrow>
       (case analysis_attempt dumps uuid run jid fp q of
          Inl e \<Rightarrow>
            out = Inr (JObj [(''error'', JStr (exn_str e))]) \<and> analyses db' = analyses db \<and>
            map_option job_status (get_job db' jid) = Some ''error''
        | Inr a \<Rightarrow>
            (if jid \<in> an_job_id ` set (analyses db) \<or> uuid \<in> an_id ` set (analyses db)
             then db' = db \<and> out = Inl (Exn ''IntegrityError'' ''UNIQUE constraint failed'')
             else out = Inr (JObj [(''ok'', JBool True)]) \<and> analyses db' = analyses db @ [a] \<and>
                  map_option job_status (get_job db' jid) = Some ''done'')))"
proof (intro impI, elim conjE, intro conjI impI)
  assume c: "constraints_ok db" and g: "get_job db jid = Some j"
    and p: "process_pdf_job faults dumps uuid run db jid fp q = (db', out)"
  have "constraints_ok db'"
    using process_pdf_job_constraints[OF c, of faults dumps uuid run jid fp q] p by simp
  then show "\<forall>k. length (filter (\<lambda>a. an_job_id a = k) (analyses db')) \<le> 1"
    using distinct_filter_le_one[of an_job_id "analyses db'"] by (simp add: constraints_ok_def)
  assume f: "get_fault faults = None \<and> commit_fault faults = None"
  show "case analysis_attempt dumps uuid run jid fp q of
        Inl e \<Rightarrow>
          out = Inr (JObj [(''error'', JStr (exn_str e))]) \<and> analyses db' = analyses db \<and>
          map_option job_status (get_job db' jid) = Some ''error''
      | Inr a \<Rightarrow>
          (if jid \<in> an_job_id ` set (analyses db) \<or> uuid \<in> an_id ` set (analyses db)
           then db' = db \<and> out = Inl (Exn ''IntegrityError'' ''UNIQUE constraint failed'')
           else out = Inr (JObj [(''ok'', JBool True)]) \<and> analyses db' = analyses db @ [a] \<and>
                map_option job_status (get_job db' jid) = Some ''done'')"
    using p g f unfolding process_pdf_job_cases[OF conjunct1[OF f] conjunct2[OF f] c g]
    by (auto split: sum.splits if_splits
        simp: get_job_set_job_outcome get_job_add_analysis analyses_set_job_outcome
          analyses_add_analysis)
qed

theorem rerun_keeps_one_analysis_witness:
  "process_pdf_job no_faults (\<lambda>v. ''{}'') ''a2'' (\<lambda>q f. Inr (model_dump example_result))
     store_done ''j1'' ''data/report.pdf'' ''Analyze this document''
     = (store_done, Inl (Exn ''IntegrityError'' ''UNIQUE constraint failed'')) \<and>
   length (filter (\<lambda>a. an_job_id a = ''j1'') (analyses store_done)) \<le> 1"
proof -
  let ?p = "process_pdf_job no_faults (\<lambda>v. ''{}'') ''a2'' (\<lambda>q f. Inr (model_dump example_result))
     store_done ''j1'' ''data/report.pdf'' ''Analyze this document''"
  have s: "job_status (example_job ''j1'' ''done'' None) \<in> {''done'', ''error''}"
    by (simp add: example_job_def)
  have e: "?p = (fst ?p, snd ?p)" by simp
  note t = rerun_keeps_one_analysis[of store_done "''j1''" "example_job ''j1'' ''done'' None"
      no_faults "\<lambda>v. ''{}''" "''a2''" "\<lambda>q f. Inr (model_dump example_result)" "''data/report.pdf''"
      "''Analyze this document''" "fst ?p" "snd ?p"]
  have "fst ?p = store_done \<and> snd ?p = Inl (Exn ''IntegrityError'' ''UNIQUE constraint failed'')"
    and "length (filter (\<lambda>a. an_job_id a = ''j1'') (analyses (fst ?p))) \<le> 1"
    using t store_done_facts s e no_faults_facts by (auto simp: example_attempt example_row_def)
  then show ?thesis by (metis e)
qed

text \<open>
  C4, as stated, fails: the commit happens when the \<open>with\<close> block is left, after the
  \<open>try\<close> statement, so an exception of the commit is not caught. A job that has its
  \<open>analyses\<close> row and is run again with an analysis that succeeds makes the insert
  violate the unique constraint: the transaction is rolled back and the task raises.
\<close>

theorem task_raises_on_commit:
  "process_pdf_job no_faults (\<lambda>v. ''{}'') ''a2'' (\<lambda>q f. Inr (model_dump example_result))
     store_done ''j1'' ''data/report.pdf'' ''Analyze this document''
   = (store_done, Inl (Exn ''IntegrityError'' ''UNIQUE constraint failed''))"
  using process_pdf_job_success[OF no_faults_facts store_done_facts(1,2) example_attempt]
  by (simp add: store_done_facts example_row_def)

text \<open>
  C4, amended. On a store that satisfies its constraints, with a database that does not
  fail for reasons of its own: when the job id is absent the task returns the "not
  found" result, without raising and without changing the store; when the analysis (or
  the construction of the row) raises, the task records status \<open>error\<close> with the
  exception's text and returns a failure result. The task does raise, with the store
  unchanged, when the lookup of the job raises or the commit does: whatever the database
  raises there propagates, and so does the refused commit of a succeeding analysis for
  a job that has its \<open>analyses\<close> row already. It raises in no other case.
\<close>

theorem task_boundary_outcomes:
  assumes "constraints_ok db"
  shows
    "(get_fault faults = None \<and> commit_fault faults = None \<and> get_job db jid = None \<longrightarrow>
        process_pdf_job faults dumps uuid run db jid fp q =
          (db, Inr (JObj [(''error'', JStr (''Job '' @ jid @ '' not found''))]))) \<and>
     (\<forall>j e. get_fault faults = None \<and> commit_fault faults = None \<and> get_job db jid = Some j \<and>
            analysis_attempt dumps uuid run jid fp q = Inl e \<longrightarrow>
        (\<exists>db'. process_pdf_job faults dumps uuid run db jid fp q =
                 (db', Inr (JObj [(''error'', JStr (exn_str e))])) \<and>
               get_job db' jid = Some (j\<lparr>job_status := ''error'', job_error := Some (exn_str e)\<rparr>))) \<and>
     (\<forall>e. get_fault faults = Some e \<longrightarrow>
        process_pdf_job faults dumps uuid run db jid fp q = (db, Inl e)) \<and>
     (\<forall>e. get_fault faults = None \<and> commit_fault faults = Some e \<longrightarrow>
        process_pdf_job faults dumps uuid run db jid fp q = (db, Inl e)) \<and>
     (\<forall>j a. get_fault faults = None \<and> commit_fault faults = None \<and> get_job db jid = Some j \<and>
            analysis_attempt dumps uuid run jid fp q = Inr a \<and>
            jid \<in> an_job_id ` set (analyses db) \<longrightarrow>
        process_pdf_job faults dumps uuid run db jid fp q =
          (db, Inl (Exn ''IntegrityError'' ''UNIQUE constraint failed''))) \<and>
     (\<forall>db' x. process_pdf_job faults dumps uuid run db jid fp q = (db', Inl x) \<longrightarrow>
        db' = db \<and>
        (get_fault faults = Some x \<or> commit_fault faults = Some x \<or>
         (x = Exn ''IntegrityError'' ''UNIQUE constraint failed'' \<and>
          (\<exists>j a. get_job db jid = Some j \<and> analysis_attempt dumps uuid run jid fp q = Inr a \<and>
                 (jid \<in> an_job_id ` set (analyses db) \<or> uuid \<in> an_id ` set (analyses db))))))"
proof -
  note c = assms
  have 1: "get_fault faults = None \<and> commit_fault faults = None \<and> get_job db jid = None \<longrightarrow>
        process_pdf_job faults dumps uuid run db jid fp q =
          (db, Inr (JObj [(''error'', JStr (''Job '' @ jid @ '' not found''))]))"
    using process_pdf_job_absent[OF _ _ c, of faults jid] by simp
  have 2: "\<forall>j e. get_fault faults = None \<and> commit_fault faults = None \<and> get_job db jid = Some j \<and>
            analysis_attempt dumps uuid run jid fp q = Inl e \<longrightarrow>
        (\<exists>db'. process_pdf_job faults dumps uuid run db jid fp q =
                 (db', Inr (JObj [(''error'', JStr (exn_str e))])) \<and>
               get_job db' jid = Some (j\<lparr>job_status := ''error'', job_error := Some (exn_str e)\<rparr>))"
  proof (intro allI impI)
    fix j e
    assume h: "get_fault faults = None \<and> commit_fault faults = None \<and> get_job db jid = Some j \<and>
            analysis_attempt dumps uuid run jid fp q = Inl e"
    then have "process_pdf_job faults dumps uuid run db jid fp q =
           (set_job_outcome jid ''error'' (Some (exn_str e)) db,
            Inr (JObj [(''error'', JStr (exn_str e))]))"
      using process_pdf_job_failure[OF _ _ c, of faults jid j dumps uuid run fp q e] by simp
    then show "\<exists>db'. process_pdf_job faults dumps uuid run db jid fp q =
                 (db', Inr (JObj [(''error'', JStr (exn_str e))])) \<and>
               get_job db' jid = Some (j\<lparr>job_status := ''error'', job_error := Some (exn_str e)\<rparr>)"
      using h by (simp add: get_job_set_job_outcome)
  qed
  have 3: "\<forall>e. get_fault faults = Some e \<longrightarrow>
        process_pdf_job faults dumps uuid run db jid fp q = (db, Inl e)"
    using process_pdf_job_get_fault by blast
  have 4: "\<forall>e. get_fault faults = None \<and> commit_fault faults = Some e \<longrightarrow>
        process_pdf_job faults dumps uuid run db jid fp q = (db, Inl e)"
    using process_pdf_job_commit_fault by blast
  have 5: "\<forall>j a. get_fault faults = None \<and> commit_fault faults = None \<and> get_job db jid = Some j \<and>
            analysis_attempt dumps uuid run jid fp q = Inr a \<and>
            jid \<in> an_job_id ` set (analyses db) \<longrightarrow>
        process_pdf_job faults dumps uuid run db jid fp q =
          (db, Inl (Exn ''IntegrityError'' ''UNIQUE constraint failed''))"
  proof (intro allI impI)
    fix j a
    assume h: "get_fault faults = None \<and> commit_fault faults = None \<and> get_job db jid = Some j \<and>
            analysis_attempt dumps uuid run jid fp q = Inr a \<and>
            jid \<in> an_job_id ` set (analyses db)"
    then show "process_pdf_job faults dumps uuid run db jid fp q =
          (db, Inl (Exn ''IntegrityError'' ''UNIQUE constraint failed''))"
      using process_pdf_job_cases[OF _ _ c, of faults jid j dumps uuid run fp q] by simp
  qed
  have 6: "\<forall>db' x. process_pdf_job faults dumps uuid run db jid fp q = (db', Inl x) \<longrightarrow>
        db' = db \<and>
        (get_fault faults = Some x \<or> commit_fault faults = Some x \<or>
         (x = Exn ''IntegrityError'' ''UNIQUE constraint failed'' \<and>
          (\<exists>j a. get_job db jid = Some j \<and> analysis_attempt dumps uuid run jid fp q = Inr a \<and>
                 (jid \<in> an_job_id ` set (analyses db) \<or> uuid \<in> an_id ` set (analyses db)))))"
  proof (intro allI impI)
    fix db' x
    assume p: "process_pdf_job faults dumps uuid run db jid fp q = (db', Inl x)"
    show "db' = db \<and>
        (get_fault faults = Some x \<or> commit_fault faults = Some x \<or>
         (x = Exn ''IntegrityError'' ''UNIQUE constraint failed'' \<and>
          (\<exists>j a. get_job db jid = Some j \<and> analysis_attempt dumps uuid run jid fp q = Inr a \<and>
                 (jid \<in> an_job_id ` set (analyses db) \<or> uuid \<in> an_id ` set (analyses db)))))"
    proof (cases "get_fault faults")
      case (Some e)
      then show ?thesis
        using p process_pdf_job_get_fault[OF Some, of dumps uuid run db jid fp q] by simp
    next
      case gn: None
      show ?thesis
      proof (cases "commit_fault faults")
        case (Some e)
        then show ?thesis
          using p process_pdf_job_commit_fault[OF gn Some, of dumps uuid run db jid fp q] by simp
      next
        case cn: None
        show ?thesis
        proof (cases "get_job db jid")
          case None
          then show ?thesis
            using p process_pdf_job_absent[OF gn cn c None, of dumps uuid run fp q] by simp
        next
          case (Some j)
          show ?thesis
          proof (cases "analysis_attempt dumps uuid run jid fp q")
            case (Inl e)
            then show ?thesis
              using p process_pdf_job_failure[OF gn cn c Some Inl] by simp
          next
            case (Inr a)
            then show ?thesis
              using p process_pdf_job_cases[OF gn cn c Some, of dumps uuid run fp q] Some
              by (simp split: if_splits)
          qed
        qed
      qed
    qed
  qed
  show ?thesis by (intro conjI 1 2 3 4 5 6)
qed

theorem task_boundary_outcomes_witness:
  "process_pdf_job no_faults (\<lambda>v. ''{}'') ''a1'' (\<lambda>q f. Inl (Exn ''RuntimeError'' ''Model call failed: timeout''))
      store_pending ''j2'' ''data/report.pdf'' ''Analyze this document''
     = (store_pending, Inr (JObj [(''error'', JStr ''Job j2 not found'')])) \<and>
   (\<exists>db'. process_pdf_job no_faults (\<lambda>v. ''{}'') ''a1''
            (\<lambda>q f. Inl (Exn ''RuntimeError'' ''Model call failed: timeout''))
            store_pending ''j1'' ''data/report.pdf'' ''Analyze this document''
          = (db', Inr (JObj [(''error'', JStr ''Model call failed: timeout'')])) \<and>
        get_job db' ''j1'' = Some (example_job ''j1'' ''error'' (Some ''Model call failed: timeout'')))"
proof -
  let ?run = "\<lambda>q f. Inl (Exn ''RuntimeError'' ''Model call failed: timeout'') :: py_exn + pydict"
  have a: "analysis_attempt (\<lambda>v. ''{}'') ''a1'' ?run ''j1'' ''data/report.pdf'' ''Analyze this document''
             = Inl (Exn ''RuntimeError'' ''Model call failed: timeout'')"
    by (simp add: analysis_attempt_def)
  have u: "example_job ''j1'' ''pending'' None\<lparr>job_status := ''error'',
             job_error := Some ''Model call failed: timeout''\<rparr>
           = example_job ''j1'' ''error'' (Some ''Model call failed: timeout'')"
    by (simp add: example_job_def)
  note t1 = task_boundary_outcomes[OF store_pending_facts(1), of no_faults "''j2''" "\<lambda>v. ''{}''"
      "''a1''" ?run "''data/report.pdf''" "''Analyze this document''"]
  note t2 = task_boundary_outcomes[OF store_pending_facts(1), of no_faults "''j1''" "\<lambda>v. ''{}''"
      "''a1''" ?run "''data/report.pdf''" "''Analyze this document''"]
  have 1: "process_pdf_job no_faults (\<lambda>v. ''{}'') ''a1'' ?run store_pending ''j2'' ''data/report.pdf''
             ''Analyze this document''
           = (store_pending, Inr (JObj [(''error'', JStr ''Job j2 not found'')]))"
    using t1[THEN conjunct1] store_pending_facts no_faults_facts by simp
  have 2: "\<exists>db'. process_pdf_job no_faults (\<lambda>v. ''{}'') ''a1'' ?run store_pending ''j1''
                    ''data/report.pdf'' ''Analyze this document''
                 = (db', Inr (JObj [(''error'', JStr ''Model call failed: timeout'')])) \<and>
               get_job db' ''j1'' = Some (example_job ''j1'' ''error'' (Some ''Model call failed: timeout''))"
    using t2[THEN conjunct2, THEN conjunct1, rule_format,
        of "example_job ''j1'' ''pending'' None" "Exn ''RuntimeError'' ''Model call failed: timeout''"]
      store_pending_facts(2) no_faults_facts a u
    by simp
  show ?thesis using 1 2 by blast
qed

text \<open>
  C8. When the analysis of a job succeeds (the store satisfies its constraints, the
  database does not fail, the job has no \<open>analyses\<close> row yet and the identifier is
  fresh), one call of the task, in one transaction, appends the row with the fields of
  the result and sets the job to \<open>done\<close> with no error. For every body run in
  \<open>session_scope\<close>: when the scope raises (from the body or from the commit) the store is
  the old one; when it returns, the store is the body's whole view. So a call of the
  task leaves the store unchanged, or with both the row and the status \<open>done\<close>, or with
  the status \<open>error\<close> alone.
\<close>

theorem record_success_atomic:
  "(get_fault faults = None \<and> commit_fault faults = None \<and>
      constraints_ok db \<and> get_job db jid = Some j \<and> run query fp = Inr (model_dump r) \<and>
      uuid \<notin> an_id ` set (analyses db) \<and> jid \<notin> an_job_id ` set (analyses db) \<longrightarrow>
      (\<exists>db'. process_pdf_job faults dumps uuid run db jid fp query =
               (db', Inr (JObj [(''ok'', JBool True)])) \<and>
         analyses db' = analyses db @
           [\<lparr>an_id = uuid, an_job_id = jid, an_result_json = dumps (JObj (model_dump r)),
             an_company = dump_opt JStr (md_company (ar_metadata r)),
             an_quarter = dump_opt JStr (md_quarter (ar_metadata r)),
             an_year = dump_opt JInt (md_year (ar_metadata r)),
             an_recommendation_action = JStr (rec_action (ar_recommendation r)),
             an_confidence = JInt (rec_confidence (ar_recommendation r)),
             an_pages = dump_opt JInt (md_pages (ar_metadata r))\<rparr>] \<and>
         get_job db' jid = Some (j\<lparr>job_status := ''done'', job_error := None\<rparr>) \<and>
         constraints_ok db')) \<and>
   (\<forall>db' out. session_scope faults db body = (db', out) \<longrightarrow>
      (case out of
         Inl e \<Rightarrow> db' = db
       | Inr v \<Rightarrow> body db = (db', Inr v) \<and> constraints_ok db')) \<and>
   (\<forall>db' out. process_pdf_job faults dumps uuid run db jid fp query = (db', out) \<longrightarrow>
      db' = db \<or>
      (\<exists>a. db' = set_job_outcome jid ''done'' None (add_analysis a db)) \<or>
      (\<exists>m. db' = set_job_outcome jid ''error'' (Some m) db))"
proof (intro conjI impI allI)
  assume h: "get_fault faults = None \<and> commit_fault faults = None \<and>
      constraints_ok db \<and> get_job db jid = Some j \<and> run query fp = Inr (model_dump r) \<and>
      uuid \<notin> an_id ` set (analyses db) \<and> jid \<notin> an_job_id ` set (analyses db)"
  let ?a = "\<lparr>an_id = uuid, an_job_id = jid, an_result_json = dumps (JObj (model_dump r)),
             an_company = dump_opt JStr (md_company (ar_metadata r)),
             an_quarter = dump_opt JStr (md_quarter (ar_metadata r)),
             an_year = dump_opt JInt (md_year (ar_metadata r)),
             an_recommendation_action = JStr (rec_action (ar_recommendation r)),
             an_confidence = JInt (rec_confidence (ar_recommendation r)),
             an_pages = dump_opt JInt (md_pages (ar_metadata r))\<rparr>"
  have a: "analysis_attempt dumps uuid run jid fp query = Inr ?a"
    using h by (simp add: analysis_attempt_def build_analysis_model_dump)
  have p: "process_pdf_job faults dumps uuid run db jid fp query =
        (set_job_outcome jid ''done'' None (add_analysis ?a db), Inr (JObj [(''ok'', JBool True)]))"
    using process_pdf_job_success[OF _ _ _ _ a, of faults db j] h by simp
  have "constraints_ok (fst (process_pdf_job faults dumps uuid run db jid fp query))"
    using process_pdf_job_constraints h by blast
  then show "\<exists>db'. process_pdf_job faults dumps uuid run db jid fp query =
               (db', Inr (JObj [(''ok'', JBool True)])) \<and>
         analyses db' = analyses db @ [?a] \<and>
         get_job db' jid = Some (j\<lparr>job_status := ''done'', job_error := None\<rparr>) \<and>
         constraints_ok db'"
    unfolding p using h
    by (simp add: get_job_set_job_outcome get_job_add_analysis analyses_set_job_outcome
        analyses_add_analysis)
next
  fix db' out
  assume "session_scope faults db body = (db', out)"
  then show "case out of Inl e \<Rightarrow> db' = db | Inr v \<Rightarrow> body db = (db', Inr v) \<and> constraints_ok db'"
    unfolding session_scope_cases
    by (cases "body db") (auto split: sum.splits if_splits option.splits)
next
  fix db' out
  assume "process_pdf_job faults dumps uuid run db jid fp query = (db', out)"
  then show "db' = db \<or>
      (\<exists>a. db' = set_job_outcome jid ''done'' None (add_analysis a db)) \<or>
      (\<exists>m. db' = set_job_outcome jid ''error'' (Some m) db)"
    unfolding process_pdf_job_def session_scope_cases process_pdf_job_body_def
    by (auto split: sum.splits if_splits option.splits)
qed

theorem record_success_atomic_witness:
  "\<exists>db'. process_pdf_job no_faults (\<lambda>v. ''{}'') ''a1'' (\<lambda>q f. Inr (model_dump example_result))
            store_pending ''j1'' ''data/report.pdf'' ''Analyze this document''
          = (db', Inr (JObj [(''ok'', JBool True)])) \<and>
        analyses db' = [example_row ''a1'' ''j1''] \<and>
        get_job db' ''j1'' = Some (example_job ''j1'' ''done'' None)"
proof -
  have u: "example_job ''j1'' ''pending'' None\<lparr>job_status := ''done'', job_error := None\<rparr>
           = example_job ''j1'' ''done'' None"
    by (simp add: example_job_def)
  have r: "\<lparr>an_id = ''a1'', an_job_id = ''j1'', an_result_json = ''{}'',
             an_company = dump_opt JStr (md_company (ar_metadata example_result)),
             an_quarter = dump_opt JStr (md_quarter (ar_metadata example_result)),
             an_year = dump_opt JInt (md_year (ar_metadata example_result)),
             an_recommendation_action = JStr (rec_action (ar_recommendation example_result)),
             an_confidence = JInt (rec_confidence (ar_recommendation example_result)),
             an_pages = dump_opt JInt (md_pages (ar_metadata example_result))\<rparr>
           = example_row ''a1'' ''j1''"
    by (simp add: example_result_def example_row_def dump_opt_def)
  show ?thesis
    using record_success_atomic[where faults = no_faults and db = store_pending and jid = "''j1''"
        and j = "example_job ''j1'' ''pending'' None"
        and run = "\<lambda>q f. Inr (model_dump example_result)" and query = "''Analyze this document''"
        and fp = "''data/report.pdf''" and r = example_result and uuid = "''a1''"
        and dumps = "\<lambda>v. ''{}''" and body = "\<lambda>v. (v, Inr ())"]
      store_pending_facts no_faults_facts u r
    by auto
qed

section \<open>Text extraction\<close>

lemma extract_text_cases:
  "extract_text_from_pdf_bytes libs b =
     (case pypdf_reader libs b of
        Inr ps \<Rightarrow> Inr (extracted ps)
      | Inl e1 \<Rightarrow>
          (case pdfplumber_open libs b of
             Inr ps \<Rightarrow> Inr (extracted ps)
           | Inl e2 \<Rightarrow> Inl (Exn ''RuntimeError''
               (''PDF extraction requires pypdf (recommended) or pdfplumber. '' @
                ''Install with: pip install pypdf pdfplumber''))))"
  by (simp add: extract_text_from_pdf_bytes_def)

text \<open>
  C9. For every byte sequence the adapter returns a text and a page count that is not
  negative, or raises; it raises (a \<open>RuntimeError\<close>) exactly when the primary reader and
  the fallback both fail as a whole. When a reader yields the pages, the result is the
  pages' texts joined by newlines and the number of pages, whatever the pages do: a page
  whose extraction raises, or returns \<open>None\<close>, contributes the empty text.
\<close>

theorem extract_text_partial_failure_tolerant:
  "(\<forall>ps. pypdf_reader libs b = Inr ps \<longrightarrow>
      extract_text_from_pdf_bytes libs b =
        Inr \<lparr>ex_text = join [CHR 0x0A] (map page_chunk ps), ex_pages = int (length ps)\<rparr>) \<and>
   (\<forall>e ps. pypdf_reader libs b = Inl e \<and> pdfplumber_open libs b = Inr ps \<longrightarrow>
      extract_text_from_pdf_bytes libs b =
        Inr \<lparr>ex_text = join [CHR 0x0A] (map page_chunk ps), ex_pages = int (length ps)\<rparr>) \<and>
   (\<forall>ext. extract_text_from_pdf_bytes libs b = Inr ext \<longrightarrow> 0 \<le> ex_pages ext) \<and>
   (\<forall>x. extract_text_from_pdf_bytes libs b = Inl x \<longrightarrow>
      exn_class x = ''RuntimeError'' \<and>
      (\<exists>e1 e2. pypdf_reader libs b = Inl e1 \<and> pdfplumber_open libs b = Inl e2)) \<and>
   (\<forall>e1 e2. pypdf_reader libs b = Inl e1 \<and> pdfplumber_open libs b = Inl e2 \<longrightarrow>
      (\<exists>x. extract_text_from_pdf_bytes libs b = Inl x)) \<and>
   (\<forall>e. page_chunk (Inl e) = []) \<and> page_chunk (Inr None) = []"
  unfolding extract_text_cases
  by (auto simp: extracted_def utf8_replace_def page_chunk_def split: sum.splits)

theorem extract_text_partial_failure_tolerant_witness:
  "extract_text_from_pdf_bytes example_libs ''%PDF-1.7''
     = Inr \<lparr>ex_text = ''Page one'' @ [CHR 0x0A] @ [CHR 0x0A] @ ''Page three'', ex_pages = 3\<rparr>"
proof -
  have r: "pypdf_reader example_libs ''%PDF-1.7'' =
             Inr [Inr (Some ''Page one''), Inl (Exn ''ValueError'' ''bad content stream''),
                  Inr (Some ''Page three'')]"
    by (simp add: example_libs_def)
  show ?thesis
    using extract_text_partial_failure_tolerant[of example_libs "''%PDF-1.7''"] r
    by (simp add: page_chunk_def)
qed


end
